theory Spec2Isabelle
  imports Complex_Main
begin

section \<open>Errors, JavaScript values and the Ramda helpers the reconcilers use\<close>

text \<open>
  Every rejection and exception of the JavaScript source is a value of \<open>error\<close>.
  An error of the AWS SDK carries its \<open>code\<close> (the source tests
  \<open>error.code\<close> against \<open>'NotFoundException'\<close>); \<open>TypeError\<close> and
  \<open>ReferenceError\<close> are the runtime's own exceptions; \<open>ConfigurationError\<close> is what
  the validation helpers of \<open>lib/index.js\<close> throw.
\<close>

datatype error = ConfigurationError | TypeError | ReferenceError | AwsError string

text \<open>
  A property of a configuration object that may be \<open>undefined\<close>, one object or an
  array of objects, as \<open>defaultToAnArray\<close> receives it.
\<close>

datatype 'a maybe_list = Undefined | Scalar 'a | Array "'a list"

text \<open>
  Modelled from the spec: \<open>defaultToAnArray\<close> of \<open>lib/index.js\<close>, which is not among
  the source files (the spec's \<open>normalizeList\<close>): undefined gives the empty sequence,
  a scalar the singleton sequence, a sequence is unchanged.
\<close>

fun defaultToAnArray :: "'a maybe_list \<Rightarrow> 'a list" where
  "defaultToAnArray Undefined = []"
| "defaultToAnArray (Scalar x) = [x]"
| "defaultToAnArray (Array xs) = xs"

text \<open>
  Ramda's \<open>difference(first, second)\<close>: the elements of \<open>first\<close> that are not in
  \<open>second\<close>, without duplicates, each at the place of its first occurrence.
\<close>

fun difference_acc :: "'a list \<Rightarrow> 'a list \<Rightarrow> 'a list \<Rightarrow> 'a list" where
  "difference_acc out [] second = out"
| "difference_acc out (x # first) second =
     (if x \<in> set second \<or> x \<in> set out then difference_acc out first second
      else difference_acc (out @ [x]) first second)"

definition difference :: "'a list \<Rightarrow> 'a list \<Rightarrow> 'a list" where
  "difference first second = difference_acc [] first second"

text \<open>
  The first error of a list of results, or all the values: what a synchronous \<open>map\<close>
  whose callback throws amounts to, and the outcome of \<open>Promise.all\<close>.
\<close>

fun sequence :: "(error + 'a) list \<Rightarrow> error + 'a list" where
  "sequence [] = Inr []"
| "sequence (Inl e # rs) = Inl e"
| "sequence (Inr v # rs) = (case sequence rs of Inl e \<Rightarrow> Inl e | Inr vs \<Rightarrow> Inr (v # vs))"

text \<open>
  Node's \<open>path.join\<close> for two segments that are already normalised (no empty segment,
  no \<open>.\<close> or \<open>..\<close>, no doubled or trailing separator): the segments with one
  separator between them. \<open>path.join\<close> normalises other segments, which is not
  modelled, and throws a \<open>TypeError\<close> on an undefined one; \<open>config.src\<close> is a
  string here, and an undefined second segment is a \<open>TypeError\<close> where a caller can
  pass one.
\<close>

definition path_join :: "string \<Rightarrow> string \<Rightarrow> string" where
  "path_join a b = a @ ''/'' @ b"

text \<open>
  Modelled from the spec: \<open>readIfFile\<close> of \<open>lib/index.js\<close>, which is not among the
  source files: \<open>readIfFile(pathOrText)\<close> gives the text of the file, and its input
  unchanged if that is not a path. The file system is a map from paths to contents.
\<close>

definition readIfFile :: "(string \<rightharpoonup> string) \<Rightarrow> string \<Rightarrow> string" where
  "readIfFile fs pathOrText = (case fs pathOrText of Some text \<Rightarrow> text | None \<Rightarrow> pathOrText)"

section \<open>Functions: the objects of \<open>lib/functions.js\<close>\<close>

text \<open>
  One record for every object the functions reconciler handles (a desired item of the
  configuration, the item with its templates resolved, the item with its mode, a
  function configuration listed by the provider, an item of the persisted state): the
  source reads all of them by property name. A property that is absent or
  \<open>undefined\<close> is \<open>None\<close>.
\<close>

record func =
  name :: "string option"
  dataSource :: "string option"
  request :: "string option"
  response :: "string option"
  description :: "string option"
  functionVersion :: "string option"
  requestMappingTemplate :: "string option"
  responseMappingTemplate :: "string option"
  dataSourceName :: "string option"
  mode :: "string option"
  functionId :: "string option"

text \<open>Reading a property of a function object by its name, \<open>obj[key]\<close>.\<close>

definition getProp :: "string \<Rightarrow> func \<Rightarrow> string option" where
  "getProp key f =
     (if key = ''name'' then name f
      else if key = ''dataSource'' then dataSource f
      else if key = ''request'' then request f
      else if key = ''response'' then response f
      else if key = ''description'' then description f
      else if key = ''functionVersion'' then functionVersion f
      else if key = ''requestMappingTemplate'' then requestMappingTemplate f
      else if key = ''responseMappingTemplate'' then responseMappingTemplate f
      else if key = ''dataSourceName'' then dataSourceName f
      else if key = ''mode'' then mode f
      else if key = ''functionId'' then functionId f
      else None)"

text \<open>
  Ramda's \<open>pick(keys, obj)\<close>: the object with only the listed properties that
  \<open>obj\<close> has, here as the list of their names and values in the order of \<open>keys\<close>.
  Two such lists over the same distinct \<open>keys\<close> are equal exactly when Ramda's
  \<open>equals\<close> holds of the two picked objects.
\<close>

definition pick :: "string list \<Rightarrow> func \<Rightarrow> (string \<times> string) list" where
  "pick keys f = List.map_filter (\<lambda>key. map_option (Pair key) (getProp key f)) keys"

text \<open>
  Modelled from the spec: \<open>equalsByKeys\<close> of \<open>lib/index.js\<close>, which is not among the
  source files (the spec's \<open>keyedEquals\<close>): true iff the two objects agree on every
  property in \<open>keys\<close>, an absent property and an undefined one being the same.
\<close>

definition equalsByKeys :: "string list \<Rightarrow> func \<Rightarrow> func \<Rightarrow> bool" where
  "equalsByKeys keys a b = list_all (\<lambda>key. getProp key a = getProp key b) keys"

text \<open>
  Modelled from the spec: \<open>checkForDuplicates\<close> of \<open>lib/index.js\<close>, which is not among
  the source files (the spec's \<open>duplicateCheck\<close>): fails with a
  \<open>ConfigurationError\<close> if two elements share identical projections onto \<open>keys\<close>.
\<close>

fun checkForDuplicates :: "string list \<Rightarrow> func list \<Rightarrow> error + unit" where
  "checkForDuplicates keys [] = Inr ()"
| "checkForDuplicates keys (f # fs) =
     (if pick keys f \<in> set (map (pick keys) fs) then Inl ConfigurationError
      else checkForDuplicates keys fs)"

section \<open>Configuration, persisted state, and the provider\<close>

text \<open>
  An API key of the configuration is a string (its name) or an object;
  \<open>expires\<close> is a number or a date string. A JavaScript number is a finite number
  (fractions included), \<open>NaN\<close>, \<open>Infinity\<close> or \<open>-Infinity\<close>; the finite ones are
  taken as reals and their arithmetic as exact, so the rounding of a double-precision
  product or quotient is not part of the model (on integers up to \<open>2^53\<close> in absolute
  value the source's arithmetic is exact too). The fields of an API key object carry the
  prefix \<open>key_\<close>: \<open>key_name\<close> is the source's \<open>name\<close>, \<open>key_id\<close> its \<open>id\<close>,
  and so on. A key listed by the provider has \<open>id\<close>, \<open>description\<close> and a numeric
  \<open>expires\<close>; a key of the persisted state has \<open>name\<close> and \<open>id\<close>.
\<close>

datatype expiry = ExpNum real | ExpNaN | ExpInfinity | ExpNegInfinity | ExpStr string

record apiKey =
  key_name :: "string option"
  key_id :: "string option"
  key_description :: "string option"
  key_expires :: "expiry option"
  key_mode :: "string option"

datatype apiKeyInput = KeyString string | KeyObject apiKey

text \<open>A number as the source computes it for the provider: an integer or \<open>NaN\<close>.\<close>

datatype jsnum = Num int | NaN

text \<open>
  The \<open>config\<close> sub-object of a data source, and the data source. \<open>ds_type\<close> is the
  source's \<open>type\<close> and \<open>ds_config\<close> its \<open>config\<close>.
\<close>

record dataSourceConfig =
  lambdaFunctionArn :: "string option"
  region :: "string option"
  accountId :: "string option"
  tableName :: "string option"
  endpoint :: "string option"
  dbClusterIdentifier :: "string option"
  awsSecretStoreArn :: "string option"

record dataSource =
  ds_type :: string
  serviceRoleArn :: "string option"
  ds_config :: dataSourceConfig

text \<open>
  The configuration object the orchestrator threads through the reconcilers
  (\<open>api_name\<close> and \<open>api_region\<close> are its \<open>name\<close> and \<open>region\<close>,
  \<open>config_functions\<close> and \<open>config_apiKeys\<close> its \<open>functions\<close> and \<open>apiKeys\<close>; a
  missing \<open>isApiCreator\<close> is falsy, here \<open>False\<close>), and the persisted state
  (\<open>state_functions\<close> and \<open>state_apiKeys\<close> are its \<open>functions\<close> and \<open>apiKeys\<close>),
  whose lists the component itself wrote as arrays (absent on a first run: the empty
  list).
\<close>

record config =
  apiId :: string
  api_name :: string
  api_region :: string
  src :: string
  schema :: "string option"
  isApiCreator :: bool
  dataSources :: "dataSource list"
  config_functions :: "func maybe_list"
  config_apiKeys :: "apiKeyInput maybe_list"

record state =
  schemaChecksum :: "string option"
  state_functions :: "func list"
  state_apiKeys :: "apiKey list"

text \<open>
  The parameters of \<open>createFunction\<close> and \<open>updateFunction\<close> (lines 58-66 of the
  functions reconciler); \<open>p_functionId\<close> is set for an update only.
\<close>

record functionParams =
  p_apiId :: string
  p_name :: "string option"
  p_requestMappingTemplate :: "string option"
  p_responseMappingTemplate :: "string option"
  p_functionVersion :: string
  p_dataSourceName :: "string option"
  p_description :: "string option"
  p_functionId :: "string option"

text \<open>A statement of the IAM policy document.\<close>

record statement =
  Action :: "string list"
  Effect :: string
  Resource :: "string option list"

text \<open>
  Every call that leaves the process, in the order the source issues it: the trace of a
  run. A paginated listing (\<open>listAll\<close>) is one entry.
\<close>

datatype call =
    ListFunctions string
  | CreateFunction functionParams
  | UpdateFunction functionParams
  | DeleteFunction string "string option"
  | ListApiKeys string
  | CreateApiKey string "string option" "jsnum option"
  | UpdateApiKey string "string option" "string option" "jsnum option"
  | StartSchemaCreation string string
  | GetSchemaCreationStatus string
  | Sleep nat
  | CreateRole string
  | CreatePolicy string "statement option list"
  | AttachRolePolicy string string

text \<open>
  The AppSync client as the reconcilers see it: what each call answers. A rejected
  call answers with the error's \<open>code\<close> (\<open>Inl code\<close>, or \<open>Some code\<close> where a
  successful answer carries nothing the source reads). \<open>getSchemaCreationStatus\<close>
  answers the \<open>n\<close>-th poll of a run.
\<close>

record appSync =
  listFunctions :: "string + func list"
  createFunction :: "functionParams \<Rightarrow> string + string"
  updateFunction :: "functionParams \<Rightarrow> string option"
  deleteFunction :: "string option \<Rightarrow> string option"
  listApiKeys :: "string + apiKey list"
  createApiKey :: "string option \<Rightarrow> jsnum option \<Rightarrow> string + string"
  updateApiKey :: "string option \<Rightarrow> string option \<Rightarrow> jsnum option \<Rightarrow> string option"
  startSchemaCreation :: "string \<Rightarrow> string option"
  getSchemaCreationStatus :: "nat \<Rightarrow> string + string"

text \<open>
  \<open>Promise.all(map(async ..., items))\<close> where each callback issues at most one call
  before its first \<open>await\<close>: every call is issued, in the order of the items, and the
  outcome is all the values or an error. Which rejection wins depends on the timing of
  the answers; the model takes the first in the order of the items.
\<close>

definition promise_all :: "(call list \<times> (error + 'a)) list \<Rightarrow> call list \<times> (error + 'a list)" where
  "promise_all rs = (concat (map fst rs), sequence (map snd rs))"

section \<open>\<open>createOrUpdateFunctions\<close> and \<open>removeObsoleteFunctions\<close>\<close>

text \<open>
  The functions reconciler is the source file \<open>src/unnamed/part_002\<close>; the line
  numbers of this section are its lines.
\<close>

text \<open>
  Lines 22-34: the templates of one desired item. Both templates are read from
  \<open>path.join(config.src, func.request)\<close>, as the source has it; \<open>path.join\<close> throws
  a \<open>TypeError\<close> on an undefined segment.
\<close>

definition functionWithTemplates :: "(string \<rightharpoonup> string) \<Rightarrow> config \<Rightarrow> func \<Rightarrow> error + func" where
  "functionWithTemplates fs cfg f =
     (case request f of
        None \<Rightarrow> Inl TypeError
      | Some req \<Rightarrow>
          (let requestMappingTemplate' = readIfFile fs (path_join (src cfg) req);
               responseMappingTemplate' = readIfFile fs (path_join (src cfg) req)
           in Inr (f\<lparr>requestMappingTemplate := Some requestMappingTemplate',
                    responseMappingTemplate := Some responseMappingTemplate',
                    dataSourceName := dataSource f\<rparr>)))"

definition functionsWithTemplates :: "(string \<rightharpoonup> string) \<Rightarrow> config \<Rightarrow> error + func list" where
  "functionsWithTemplates fs cfg =
     sequence (map (functionWithTemplates fs cfg) (defaultToAnArray (config_functions cfg)))"

text \<open>
  Lines 36-54: the mode of one resolved item against the listed functions. A found
  object is truthy, so \<open>not(deployedFunction)\<close> holds exactly when \<open>find\<close> gave
  \<open>undefined\<close>.
\<close>

definition functionToDeploy :: "func list \<Rightarrow> func \<Rightarrow> func" where
  "functionToDeploy deployedFunctions f =
     (let deployedFunction =
            find (\<lambda>d. name d = name f \<and> dataSourceName d = dataSourceName f) deployedFunctions;
          functionEquals =
            (case deployedFunction of
               None \<Rightarrow> False
             | Some d \<Rightarrow>
                 equalsByKeys [''dataSourceName'', ''name'', ''responseMappingTemplate'',
                               ''requestMappingTemplate''] d f);
          mode' = (if \<not> functionEquals
                   then (if deployedFunction = None then ''create'' else ''update'')
                   else ''ignore'')
      in f\<lparr>mode := Some mode',
           functionId := (case deployedFunction of Some d \<Rightarrow> functionId d | None \<Rightarrow> None)\<rparr>)"

text \<open>Lines 57-76: the call for one item, and the item as returned.\<close>

definition functionParamsOf :: "config \<Rightarrow> func \<Rightarrow> functionParams" where
  "functionParamsOf cfg f =
     \<lparr>p_apiId = apiId cfg,
      p_name = name f,
      p_requestMappingTemplate = requestMappingTemplate f,
      p_responseMappingTemplate = responseMappingTemplate f,
      p_functionVersion =
        (case functionVersion f of
           None \<Rightarrow> ''2018-05-29''
         | Some v \<Rightarrow> if v = [] then ''2018-05-29'' else v),
      p_dataSourceName = dataSource f,
      p_description = description f,
      p_functionId = None\<rparr>"

definition deployFunction :: "appSync \<Rightarrow> config \<Rightarrow> func \<Rightarrow> call list \<times> (error + func)" where
  "deployFunction client cfg f =
     (let params = functionParamsOf cfg f in
      if mode f = Some ''create'' then
        ([CreateFunction params],
         case createFunction client params of
           Inl code \<Rightarrow> Inl (AwsError code)
         | Inr newId \<Rightarrow> Inr (f\<lparr>functionId := Some newId\<rparr>))
      else if mode f = Some ''update'' then
        (let params' = params\<lparr>p_functionId := functionId f\<rparr> in
         ([UpdateFunction params'],
          case updateFunction client params' of
            Some code \<Rightarrow> Inl (AwsError code)
          | None \<Rightarrow> Inr f))
      else ([], Inr f))"

definition createOrUpdateFunctions ::
  "appSync \<Rightarrow> (string \<rightharpoonup> string) \<Rightarrow> config \<Rightarrow> call list \<times> (error + func list)" where
  "createOrUpdateFunctions client fs cfg =
     (case checkForDuplicates [''name'', ''dataSource''] (defaultToAnArray (config_functions cfg)) of
        Inl e \<Rightarrow> ([], Inl e)
      | Inr _ \<Rightarrow>
          (case listFunctions client of
             Inl code \<Rightarrow> ([ListFunctions (apiId cfg)], Inl (AwsError code))
           | Inr deployedFunctions \<Rightarrow>
               (case functionsWithTemplates fs cfg of
                  Inl e \<Rightarrow> ([ListFunctions (apiId cfg)], Inl e)
                | Inr resolved \<Rightarrow>
                    (let functionsToDeploy = map (functionToDeploy deployedFunctions) resolved;
                         (calls, result) = promise_all (map (deployFunction client cfg) functionsToDeploy)
                     in (ListFunctions (apiId cfg) # calls, result)))))"

text \<open>
  Lines 87-114. The deletes of the obsolete projections are all issued; a rejection
  whose code is \<open>NotFoundException\<close> is swallowed, any other one is rethrown. An
  obsolete projection always has its item in the state; were there none, destructuring
  \<open>undefined\<close> would throw a \<open>TypeError\<close> before the call.
\<close>

definition removeFunction :: "appSync \<Rightarrow> config \<Rightarrow> state \<Rightarrow> (string \<times> string) list \<Rightarrow> call list \<times> (error + unit)" where
  "removeFunction client cfg st obsolete =
     (case find (\<lambda>f. name f = map_of obsolete ''name'' \<and>
                      dataSource f = map_of obsolete ''dataSource'') (state_functions st) of
        None \<Rightarrow> ([], Inl TypeError)
      | Some f \<Rightarrow>
          ([DeleteFunction (apiId cfg) (functionId f)],
           case deleteFunction client (functionId f) of
             None \<Rightarrow> Inr ()
           | Some code \<Rightarrow> if code \<noteq> ''NotFoundException'' then Inl (AwsError code) else Inr ()))"

definition obsoleteFunctions :: "config \<Rightarrow> state \<Rightarrow> (string \<times> string) list list" where
  "obsoleteFunctions cfg st =
     difference (map (pick [''name'', ''dataSource'']) (state_functions st))
                (map (pick [''name'', ''dataSource'']) (defaultToAnArray (config_functions cfg)))"

definition removeObsoleteFunctions :: "appSync \<Rightarrow> config \<Rightarrow> state \<Rightarrow> call list \<times> (error + unit list)" where
  "removeObsoleteFunctions client cfg st =
     promise_all (map (removeFunction client cfg st) (obsoleteFunctions cfg st))"

section \<open>\<open>createOrUpdateApiKeys\<close>\<close>

text \<open>
  The API key reconciler is the source file \<open>src/unnamed/part_001\<close>; the line
  numbers of this section are its lines.
\<close>

text \<open>The API key object with no property, \<open>{}\<close>.\<close>

definition emptyKey :: apiKey where
  "emptyKey =
     \<lparr>key_name = None, key_id = None, key_description = None, key_expires = None,
      key_mode = None\<rparr>"

text \<open>
  Ramda's \<open>merge(l, r)\<close> on API key objects: the properties of \<open>r\<close> win over those
  of \<open>l\<close>.
\<close>

definition mergeKey :: "apiKey \<Rightarrow> apiKey \<Rightarrow> apiKey" where
  "mergeKey l r =
     \<lparr>key_name = (case key_name r of None \<Rightarrow> key_name l | Some v \<Rightarrow> Some v),
      key_id = (case key_id r of None \<Rightarrow> key_id l | Some v \<Rightarrow> Some v),
      key_description = (case key_description r of None \<Rightarrow> key_description l | Some v \<Rightarrow> Some v),
      key_expires = (case key_expires r of None \<Rightarrow> key_expires l | Some v \<Rightarrow> Some v),
      key_mode = (case key_mode r of None \<Rightarrow> key_mode l | Some v \<Rightarrow> Some v)\<rparr>"

text \<open>Lines 22-23: a string stands for the key of that name.\<close>

fun formatInputApiKey :: "apiKeyInput \<Rightarrow> apiKey" where
  "formatInputApiKey (KeyString s) = emptyKey\<lparr>key_name := Some s\<rparr>"
| "formatInputApiKey (KeyObject k) = k"

definition formatInputApiKeys :: "apiKeyInput maybe_list \<Rightarrow> apiKey list" where
  "formatInputApiKeys keys = map formatInputApiKey (defaultToAnArray keys)"

text \<open>
  Modelled from the spec: \<open>checkForRequired\<close> of \<open>lib/index.js\<close>, which is not among
  the source files: a missing required field (the spec's example is an unnamed API key)
  is a \<open>ConfigurationError\<close>.
\<close>

definition hasKeyProp :: "string \<Rightarrow> apiKey \<Rightarrow> bool" where
  "hasKeyProp key k =
     (if key = ''name'' then key_name k \<noteq> None
      else if key = ''id'' then key_id k \<noteq> None
      else if key = ''description'' then key_description k \<noteq> None
      else if key = ''expires'' then key_expires k \<noteq> None
      else if key = ''mode'' then key_mode k \<noteq> None
      else False)"

definition checkForRequired :: "string list \<Rightarrow> apiKey \<Rightarrow> error + unit" where
  "checkForRequired keys k =
     (if list_all (\<lambda>key. hasKeyProp key k) keys then Inr () else Inl ConfigurationError)"

text \<open>
  Lines 36-46: the keys of the state that the provider still lists, each merged with
  the listed key of the same \<open>id\<close>.
\<close>

definition stateApiKeysOf :: "apiKey list \<Rightarrow> state \<Rightarrow> apiKey list" where
  "stateApiKeysOf deployedApiKeys st =
     List.map_filter
       (\<lambda>stateApiKey.
          map_option (mergeKey stateApiKey)
            (find (\<lambda>deployedApiKey. key_id deployedApiKey = key_id stateApiKey) deployedApiKeys))
       (state_apiKeys st)"

text \<open>Lines 48-64: the mode of one desired key. The check of the name comes first.\<close>

definition apiKeyToDeploy :: "apiKey list \<Rightarrow> apiKey \<Rightarrow> error + apiKey" where
  "apiKeyToDeploy stateApiKeys k =
     (case checkForRequired [''name''] k of
        Inl e \<Rightarrow> Inl e
      | Inr _ \<Rightarrow>
          (case find (\<lambda>stateApiKey. key_name stateApiKey = key_name k) stateApiKeys of
             None \<Rightarrow> Inr (mergeKey k (emptyKey\<lparr>key_mode := Some ''create''\<rparr>))
           | Some stateApiKey \<Rightarrow>
               if (key_description k \<noteq> None \<and> key_description k \<noteq> key_description stateApiKey)
                  \<or> (key_expires k \<noteq> None \<and> key_expires k \<noteq> key_expires stateApiKey)
               then Inr (mergeKey (mergeKey stateApiKey (emptyKey\<lparr>key_mode := Some ''update''\<rparr>)) k)
               else Inr (mergeKey (mergeKey stateApiKey (emptyKey\<lparr>key_mode := Some ''ignore''\<rparr>)) k)))"

definition apiKeysToDeploy :: "apiKey list \<Rightarrow> config \<Rightarrow> state \<Rightarrow> error + apiKey list" where
  "apiKeysToDeploy deployedApiKeys cfg st =
     sequence (map (apiKeyToDeploy (stateApiKeysOf deployedApiKeys st))
                   (formatInputApiKeys (config_apiKeys cfg)))"

text \<open>
  Lines 69-75. A number below \<open>1000000000000\<close> is multiplied by 1000 (\<open>NaN\<close> and
  \<open>Infinity\<close> are not below it, \<open>-Infinity\<close> is, and stays \<open>-Infinity\<close>).
  \<open>new Date(v).getTime()\<close> is \<open>NaN\<close> for a number that is not finite or is beyond
  \<open>8.64e15\<close> in absolute value (the time range of a JavaScript \<open>Date\<close>), and
  otherwise \<open>v\<close> without its fraction (truncated towards zero); for a string it is
  what \<open>Date.parse\<close> gives, a parameter here (\<open>None\<close> for an invalid date).
  \<open>Math.round(t / 1000)\<close> rounds to the nearest integer, a half upwards: for the
  integer \<open>t\<close> that is \<open>(t + 500) div 1000\<close>.
\<close>

definition dateToParse :: "expiry option \<Rightarrow> expiry option" where
  "dateToParse e =
     (case e of
        Some (ExpNum v) \<Rightarrow> if v < 1000000000000 then Some (ExpNum (v * 1000)) else Some (ExpNum v)
      | other \<Rightarrow> other)"

definition jsTruncate :: "real \<Rightarrow> int" where
  "jsTruncate t = (if 0 \<le> t then \<lfloor>t\<rfloor> else \<lceil>t\<rceil>)"

definition getTime :: "(string \<Rightarrow> int option) \<Rightarrow> expiry \<Rightarrow> int option" where
  "getTime parse d =
     (case d of
        ExpNum t \<Rightarrow> if \<bar>t\<bar> > 8640000000000000 then None else Some (jsTruncate t)
      | ExpNaN \<Rightarrow> None
      | ExpInfinity \<Rightarrow> None
      | ExpNegInfinity \<Rightarrow> None
      | ExpStr s \<Rightarrow> parse s)"

definition expiresOf :: "(string \<Rightarrow> int option) \<Rightarrow> expiry option \<Rightarrow> jsnum option" where
  "expiresOf parse e =
     (case dateToParse e of
        None \<Rightarrow> None
      | Some d \<Rightarrow>
          Some (case getTime parse d of None \<Rightarrow> NaN | Some t \<Rightarrow> Num ((t + 500) div 1000)))"

text \<open>Lines 67-107: the call for one key, and \<open>pick(['name', 'id'])\<close> of it.\<close>

definition pickNameId :: "apiKey \<Rightarrow> apiKey" where
  "pickNameId k = emptyKey\<lparr>key_name := key_name k, key_id := key_id k\<rparr>"

definition deployApiKey ::
  "appSync \<Rightarrow> (string \<Rightarrow> int option) \<Rightarrow> config \<Rightarrow> apiKey \<Rightarrow> call list \<times> (error + apiKey)" where
  "deployApiKey client parse cfg k =
     (let expires = expiresOf parse (key_expires k) in
      if key_mode k = Some ''create'' then
        ([CreateApiKey (apiId cfg) (key_description k) expires],
         case createApiKey client (key_description k) expires of
           Inl code \<Rightarrow> Inl (AwsError code)
         | Inr newId \<Rightarrow> Inr (pickNameId (k\<lparr>key_id := Some newId\<rparr>)))
      else if key_mode k = Some ''update'' then
        ([UpdateApiKey (apiId cfg) (key_id k) (key_description k) expires],
         case updateApiKey client (key_id k) (key_description k) expires of
           Some code \<Rightarrow> Inl (AwsError code)
         | None \<Rightarrow> Inr (pickNameId k))
      else ([], Inr (pickNameId k)))"

definition createOrUpdateApiKeys ::
  "appSync \<Rightarrow> (string \<Rightarrow> int option) \<Rightarrow> config \<Rightarrow> state \<Rightarrow> call list \<times> (error + apiKey list)" where
  "createOrUpdateApiKeys client parse cfg st =
     (case listApiKeys client of
        Inl code \<Rightarrow> ([ListApiKeys (apiId cfg)], Inl (AwsError code))
      | Inr deployedApiKeys \<Rightarrow>
          (case apiKeysToDeploy deployedApiKeys cfg st of
             Inl e \<Rightarrow> ([ListApiKeys (apiId cfg)], Inl e)
           | Inr toDeploy \<Rightarrow>
               (let (calls, result) = promise_all (map (deployApiKey client parse cfg) toDeploy)
                in (ListApiKeys (apiId cfg) # calls, result))))"

section \<open>\<open>createSchema\<close>\<close>

text \<open>
  \<open>createSchema\<close> is the second module of the source file
  \<open>src/src/lib/role.js\<close> (from line 249 on); the line numbers of this section are
  lines of that file.
\<close>

text \<open>
  Lines 283-292: the polling loop. It has no bound: a run in which no status is
  terminal and no call is rejected never returns, which is the value \<open>None\<close>.
\<close>

partial_function (option) pollSchemaCreation ::
  "appSync \<Rightarrow> config \<Rightarrow> nat \<Rightarrow> call list \<Rightarrow> (call list \<times> (error + unit)) option" where
  "pollSchemaCreation client cfg n calls =
     (case getSchemaCreationStatus client n of
        Inl code \<Rightarrow> Some (calls @ [GetSchemaCreationStatus (apiId cfg)], Inl (AwsError code))
      | Inr status \<Rightarrow>
          if status \<in> set [''FAILED'', ''SUCCESS'', ''NOT_APPLICABLE'']
          then Some (calls @ [GetSchemaCreationStatus (apiId cfg)], Inr ())
          else pollSchemaCreation client cfg (Suc n)
                 (calls @ [GetSchemaCreationStatus (apiId cfg), Sleep 1000]))"

declare pollSchemaCreation.simps [code]

text \<open>
  Lines 271-294, from the schema reference on. \<open>checksum\<close> of \<open>lib/index.js\<close> is not
  among the source files and is a parameter.
\<close>

definition createSchemaFrom ::
  "appSync \<Rightarrow> (string \<rightharpoonup> string) \<Rightarrow> (string \<Rightarrow> string) \<Rightarrow> config \<Rightarrow> state \<Rightarrow> string
     \<Rightarrow> (call list \<times> (error + string option)) option" where
  "createSchemaFrom client fs checksum cfg st schemaRef =
     (let schemaText = readIfFile fs (path_join (src cfg) schemaRef);
          schemaChecksum' = checksum schemaText
      in if Some schemaChecksum' \<noteq> schemaChecksum st then
           (case startSchemaCreation client schemaText of
              Some code \<Rightarrow> Some ([StartSchemaCreation (apiId cfg) schemaText], Inl (AwsError code))
            | None \<Rightarrow>
                (case pollSchemaCreation client cfg 0 [StartSchemaCreation (apiId cfg) schemaText] of
                   None \<Rightarrow> None
                 | Some (calls, Inl e) \<Rightarrow> Some (calls, Inl e)
                 | Some (calls, Inr _) \<Rightarrow> Some (calls, Inr (Some schemaChecksum'))))
         else Some ([], Inr (Some schemaChecksum')))"

text \<open>
  Lines 261-270: without a schema, a caller that is not the creator of the API returns
  \<open>Promise.resolve()\<close>, that is \<open>undefined\<close>, here \<open>Inr None\<close>.
\<close>

definition createSchema ::
  "appSync \<Rightarrow> (string \<rightharpoonup> string) \<Rightarrow> (string \<Rightarrow> string) \<Rightarrow> config \<Rightarrow> state
     \<Rightarrow> (call list \<times> (error + string option)) option" where
  "createSchema client fs checksum cfg st =
     (case schema cfg of
        None \<Rightarrow>
          if \<not> isApiCreator cfg then Some ([], Inr None)
          else createSchemaFrom client fs checksum cfg st ''schema.graphql''
      | Some schemaRef \<Rightarrow> createSchemaFrom client fs checksum cfg st schemaRef)"

section \<open>\<open>createServiceRole\<close> and \<open>createRole\<close>\<close>

text \<open>
  The first module of the source file \<open>src/src/lib/role.js\<close>; the line numbers of
  this section are its lines.
\<close>

text \<open>
  The IAM client: \<open>createRole\<close> and \<open>createPolicy\<close> answer with the ARN of what
  they created, or are rejected with a code.
\<close>

record iam =
  iam_createRole :: "string \<Rightarrow> string + string"
  iam_createPolicy :: "string \<Rightarrow> statement option list \<Rightarrow> string + string"
  iam_attachRolePolicy :: "string \<Rightarrow> string \<Rightarrow> string option"

text \<open>
  Lines 26-40: the reducer. The accumulator is an object from data source types to
  lists of configurations, here an association list in the order the keys were added
  (the order \<open>toPairs\<close> lists them in). This is the source's object for types that are
  neither integer-like (\<open>toPairs\<close> lists such keys first) nor names of properties of
  \<open>Object.prototype\<close> such as \<open>constructor\<close> (which the object of the source
  inherits); the data source types of the provider are neither.
\<close>

fun setProp :: "string \<Rightarrow> 'v \<Rightarrow> (string \<times> 'v) list \<Rightarrow> (string \<times> 'v) list" where
  "setProp key v [] = [(key, v)]"
| "setProp key v ((key', v') # rest) =
     (if key' = key then (key, v) # rest else (key', v') # setProp key v rest)"

definition addDataSource ::
  "(string \<times> dataSourceConfig list) list \<Rightarrow> dataSource \<Rightarrow> (string \<times> dataSourceConfig list) list" where
  "addDataSource acc ds =
     (if serviceRoleArn ds = None then
        (let acc' = (if map_of acc (ds_type ds) = None then setProp (ds_type ds) [] acc else acc);
             configs = (case map_of acc' (ds_type ds) of None \<Rightarrow> [] | Some cs \<Rightarrow> cs);
             existingItem = find (\<lambda>dataSourceConfig. dataSourceConfig = ds_config ds) configs
         in if existingItem = None then setProp (ds_type ds) (configs @ [ds_config ds]) acc'
            else acc')
      else acc)"

text \<open>
  A template literal prints \<open>undefined\<close> for an undefined value, and \<open>a || b\<close> is
  \<open>b\<close> when \<open>a\<close> is undefined or the empty string.
\<close>

definition render :: "string option \<Rightarrow> string" where
  "render v = (case v of None \<Rightarrow> ''undefined'' | Some s \<Rightarrow> s)"

definition orElse :: "string option \<Rightarrow> string \<Rightarrow> string" where
  "orElse a b = (case a of None \<Rightarrow> b | Some s \<Rightarrow> if s = [] then b else s)"

text \<open>
  Lines 42-156: the statements for one type. The regular expression of the
  Elasticsearch case is a parameter, \<open>esDomain\<close>: the host it captures from an
  endpoint, or \<open>None\<close> when it does not match, where \<open>result[1]\<close> throws a
  \<open>TypeError\<close> (an undefined endpoint does not match). The relational case reads
  \<open>config.region\<close> when the data source has no region, and no \<open>config\<close> is in scope
  there: a \<open>ReferenceError\<close>. Any other type gives \<open>undefined\<close>, here \<open>None\<close>.
\<close>

definition elasticsearchResource ::
  "(string \<Rightarrow> string option) \<Rightarrow> string \<Rightarrow> config \<Rightarrow> dataSourceConfig \<Rightarrow> error + string option" where
  "elasticsearchResource esDomain account inputs c =
     (case endpoint c of
        None \<Rightarrow> Inl TypeError
      | Some e \<Rightarrow>
          (case esDomain e of
             None \<Rightarrow> Inl TypeError
           | Some host \<Rightarrow>
               Inr (Some (''arn:aws:es:'' @ orElse (region c) (api_region inputs) @ '':''
                          @ orElse (accountId c) account @ '':domain/'' @ host))))"

definition relationalResources :: "string \<Rightarrow> dataSourceConfig \<Rightarrow> error + string option list" where
  "relationalResources account c =
     (if region c = None \<or> region c = Some [] then Inl ReferenceError
      else Inr [Some (''arn:aws:rds:'' @ render (region c) @ '':'' @ orElse (accountId c) account
                      @ '':cluster:'' @ render (dbClusterIdentifier c)),
                Some (''arn:aws:rds:'' @ render (region c) @ '':'' @ orElse (accountId c) account
                      @ '':cluster:'' @ render (dbClusterIdentifier c) @ '':*'')])"

definition statementsFor ::
  "(string \<Rightarrow> string option) \<Rightarrow> string \<Rightarrow> config \<Rightarrow> string \<times> dataSourceConfig list
     \<Rightarrow> error + statement option list" where
  "statementsFor esDomain account inputs pair =
     (let type = fst pair; dataSourceConfigs = snd pair in
      if type = ''AWS_LAMBDA'' then
        Inr [Some \<lparr>Action = [''lambda:invokeFunction''],
                   Effect = ''Allow'',
                   Resource = concat (map (\<lambda>c. [lambdaFunctionArn c,
                                                  Some (render (lambdaFunctionArn c) @ '':*'')])
                                          dataSourceConfigs)\<rparr>]
      else if type = ''AMAZON_DYNAMODB'' then
        Inr [Some \<lparr>Action = [''dynamodb:DeleteItem'', ''dynamodb:GetItem'', ''dynamodb:PutItem'',
                             ''dynamodb:Query'', ''dynamodb:Scan'', ''dynamodb:UpdateItem'',
                             ''dynamodb:BatchGetItem'', ''dynamodb:BatchWriteItem''],
                   Effect = ''Allow'',
                   Resource = concat (map (\<lambda>c.
                       [Some (''arn:aws:dynamodb:'' @ orElse (region c) (api_region inputs) @ '':''
                              @ orElse (accountId c) account @ '':table/'' @ render (tableName c)),
                        Some (''arn:aws:dynamodb:'' @ orElse (region c) (api_region inputs) @ '':''
                              @ orElse (accountId c) account @ '':table/'' @ render (tableName c)
                              @ ''/*'')])
                       dataSourceConfigs)\<rparr>]
      else if type = ''AMAZON_ELASTICSEARCH'' then
        (case sequence (map (elasticsearchResource esDomain account inputs) dataSourceConfigs) of
           Inl e \<Rightarrow> Inl e
         | Inr resources \<Rightarrow>
             Inr [Some \<lparr>Action = [''es:ESHttpDelete'', ''es:ESHttpGet'', ''es:ESHttpHead'',
                                  ''es:ESHttpPost'', ''es:ESHttpPut''],
                        Effect = ''Allow'',
                        Resource = resources\<rparr>])
      else if type = ''RELATIONAL_DATABASE'' then
        (case sequence (map (relationalResources account) dataSourceConfigs) of
           Inl e \<Rightarrow> Inl e
         | Inr resources \<Rightarrow>
             Inr [Some \<lparr>Action = [''rds-data:DeleteItems'', ''rds-data:ExecuteSql'',
                                  ''rds-data:ExecuteStatement'', ''rds-data:GetItems'',
                                  ''rds-data:InsertItems'', ''rds-data:UpdateItems''],
                        Effect = ''Allow'',
                        Resource = concat resources\<rparr>,
                  Some \<lparr>Action = [''secretsmanager:GetSecretValue''],
                        Effect = ''Allow'',
                        Resource = concat (map (\<lambda>c. [awsSecretStoreArn c,
                                                       Some (render (awsSecretStoreArn c) @ '':*'')])
                                               dataSourceConfigs)\<rparr>])
      else Inr [None])"

text \<open>Lines 25-158: the statements of the whole configuration.\<close>

definition statementsOf ::
  "(string \<Rightarrow> string option) \<Rightarrow> string \<Rightarrow> config \<Rightarrow> error + statement option list" where
  "statementsOf esDomain account inputs =
     (case sequence (map (statementsFor esDomain account inputs)
                         (foldl addDataSource [] (dataSources inputs))) of
        Inl e \<Rightarrow> Inl e
      | Inr groups \<Rightarrow> Inr (concat groups))"

text \<open>
  Lines 167-208. The result is the pair of \<open>roleArn\<close> and \<open>policyArn\<close>.
\<close>

definition createRole ::
  "iam \<Rightarrow> statement option list \<Rightarrow> string \<Rightarrow> call list \<times> (error + (string \<times> string) option)" where
  "createRole client statements apiName =
     (let roleName = apiName @ ''-role''; policyName = apiName @ ''-policy'' in
      case iam_createRole client roleName of
        Inl code \<Rightarrow> ([CreateRole roleName], Inl (AwsError code))
      | Inr roleArn \<Rightarrow>
          (case iam_createPolicy client policyName statements of
             Inl code \<Rightarrow> ([CreateRole roleName, CreatePolicy policyName statements], Inl (AwsError code))
           | Inr policyArn \<Rightarrow>
               (case iam_attachRolePolicy client roleName policyArn of
                  Some code \<Rightarrow>
                    ([CreateRole roleName, CreatePolicy policyName statements,
                      AttachRolePolicy roleName policyArn], Inl (AwsError code))
                | None \<Rightarrow>
                    ([CreateRole roleName, CreatePolicy policyName statements,
                      AttachRolePolicy roleName policyArn, Sleep 10000],
                     Inr (Some (roleArn, policyArn))))))"

text \<open>
  The test \<open>if (statements)\<close> of line 159 is on an array, and every object is truthy
  in JavaScript, the empty array too.
\<close>

definition truthyArray :: "'a list \<Rightarrow> bool" where
  "truthyArray xs = True"

text \<open>
  Lines 23-165. \<open>getAccountId\<close> of \<open>./utils\<close> is not among the source files; the
  account it answers is a parameter. The result \<open>{}\<close> of line 164 is \<open>Inr None\<close>.
\<close>

definition createServiceRole ::
  "iam \<Rightarrow> (string \<Rightarrow> string option) \<Rightarrow> string \<Rightarrow> config
     \<Rightarrow> call list \<times> (error + (string \<times> string) option)" where
  "createServiceRole client esDomain account inputs =
     (case statementsOf esDomain account inputs of
        Inl e \<Rightarrow> ([], Inl e)
      | Inr statements \<Rightarrow>
          if truthyArray statements then createRole client statements (api_name inputs)
          else ([], Inr None))"

section \<open>The provider's API keys across two runs\<close>

text \<open>
  A provider that keeps its API keys, for running the reconciliation twice with nothing
  else touching them: it lists the keys it holds, names a created key after the number
  of keys it holds, and keeps the description and the expiry it was sent (an update
  replaces the ones it is sent). A run of the
  API key step leaves the provider with the effect of its calls and the state with the
  keys the step returned (lines 47 and 54 of the orchestrator,
  \<open>src/unnamed/part_000\<close>).
\<close>

definition freshKeyId :: "apiKey list \<Rightarrow> string" where
  "freshKeyId keys = ''key-'' @ replicate (Suc (length keys)) CHR ''i''"

fun sentExpiry :: "jsnum option \<Rightarrow> expiry option" where
  "sentExpiry (Some (Num n)) = Some (ExpNum (of_int n))"
| "sentExpiry other = None"

fun afterCall :: "apiKey list \<Rightarrow> call \<Rightarrow> apiKey list" where
  "afterCall keys (CreateApiKey api descr expires) =
     keys @ [emptyKey\<lparr>key_id := Some (freshKeyId keys), key_description := descr,
                      key_expires := sentExpiry expires\<rparr>]"
| "afterCall keys (UpdateApiKey api i descr expires) =
     map (\<lambda>k. if key_id k = i
              then k\<lparr>key_description := (case descr of None \<Rightarrow> key_description k | Some d \<Rightarrow> Some d),
                     key_expires := (case sentExpiry expires of
                                       None \<Rightarrow> key_expires k
                                     | Some e \<Rightarrow> Some e)\<rparr>
              else k) keys"
| "afterCall keys other = keys"

definition keyProvider :: "apiKey list \<Rightarrow> appSync" where
  "keyProvider keys =
     \<lparr>listFunctions = Inr [],
      createFunction = (\<lambda>params. Inr ''fn-1''),
      updateFunction = (\<lambda>params. None),
      deleteFunction = (\<lambda>functionId. None),
      listApiKeys = Inr keys,
      createApiKey = (\<lambda>descr expires. Inr (freshKeyId keys)),
      updateApiKey = (\<lambda>i descr expires. None),
      startSchemaCreation = (\<lambda>definition. None),
      getSchemaCreationStatus = (\<lambda>n. Inr ''SUCCESS'')\<rparr>"

definition syncApiKeys ::
  "(string \<Rightarrow> int option) \<Rightarrow> config \<Rightarrow> apiKey list \<times> state
     \<Rightarrow> call list \<times> (apiKey list \<times> state)" where
  "syncApiKeys parse cfg remote =
     (let keys = fst remote; st = snd remote;
          run = createOrUpdateApiKeys (keyProvider keys) parse cfg st
      in (fst run,
          (foldl afterCall keys (fst run),
           case snd run of Inl e \<Rightarrow> st | Inr deployed \<Rightarrow> st\<lparr>state_apiKeys := deployed\<rparr>)))"

section \<open>Sample objects\<close>

text \<open>
  The function object with no property, a provider that lists nothing and accepts every
  call, an IAM client that accepts every call, and a configuration with no resource.
\<close>

definition emptyFunc :: func where
  "emptyFunc =
     \<lparr>name = None, dataSource = None, request = None, response = None, description = None,
      functionVersion = None, requestMappingTemplate = None, responseMappingTemplate = None,
      dataSourceName = None, mode = None, functionId = None\<rparr>"

definition idleClient :: appSync where
  "idleClient =
     \<lparr>listFunctions = Inr [],
      createFunction = (\<lambda>params. Inr ''fn-1''),
      updateFunction = (\<lambda>params. None),
      deleteFunction = (\<lambda>functionId. None),
      listApiKeys = Inr [],
      createApiKey = (\<lambda>description expires. Inr ''key-1''),
      updateApiKey = (\<lambda>id description expires. None),
      startSchemaCreation = (\<lambda>definition. None),
      getSchemaCreationStatus = (\<lambda>n. Inr ''SUCCESS'')\<rparr>"

definition idleIam :: iam where
  "idleIam =
     \<lparr>iam_createRole = (\<lambda>roleName. Inr (''arn:aws:iam::1:role/'' @ roleName)),
      iam_createPolicy = (\<lambda>policyName statements. Inr (''arn:aws:iam::1:policy/'' @ policyName)),
      iam_attachRolePolicy = (\<lambda>roleName policyArn. None)\<rparr>"

definition emptyConfig :: config where
  "emptyConfig =
     \<lparr>apiId = ''api-1'', api_name = ''api'', api_region = ''us-east-1'', src = ''src'',
      schema = None, isApiCreator = False, dataSources = [],
      config_functions = Undefined, config_apiKeys = Undefined\<rparr>"

definition emptyState :: state where
  "emptyState = \<lparr>schemaChecksum = None, state_functions = [], state_apiKeys = []\<rparr>"

section \<open>Auxiliary facts\<close>

subsection \<open>Results in sequence\<close>

lemma sequence_Inl: "sequence rs = Inl e \<Longrightarrow> Inl e \<in> set rs"
  by (induction rs rule: sequence.induct) (auto split: sum.splits)

lemma sequence_fails: "Inl e \<in> set rs \<Longrightarrow> \<exists>e'. sequence rs = Inl e'"
  by (induction rs rule: sequence.induct) (auto split: sum.splits)

lemma sequence_all_Inr: "\<forall>x\<in>set xs. g x = Inr (h x) \<Longrightarrow> sequence (map g xs) = Inr (map h xs)"
  by (induction xs) auto

subsection \<open>Projections and \<open>difference\<close>\<close>

lemma pick_member: "(key, v) \<in> set (pick keys a) \<Longrightarrow> getProp key a = Some v"
  by (auto simp: pick_def List.map_filter_def)

lemma pick_eq_iff:
  "pick keys a = pick keys b \<longleftrightarrow> (\<forall>key \<in> set keys. getProp key a = getProp key b)"
proof (induction keys)
  case Nil
  then show ?case by (simp add: pick_def List.map_filter_simps)
next
  case (Cons k ks)
  have cons: "pick (k # ks) c = (case getProp k c of None \<Rightarrow> pick ks c | Some v \<Rightarrow> (k, v) # pick ks c)" for c
    by (simp add: pick_def List.map_filter_simps split: option.splits)
  show ?case
  proof (cases "getProp k a")
    case None
    note a = this
    show ?thesis
    proof (cases "getProp k b")
      case None
      with a Cons show ?thesis by (simp add: cons)
    next
      case (Some v)
      have "pick ks a \<noteq> (k, v) # pick ks b"
      proof
        assume "pick ks a = (k, v) # pick ks b"
        then have "(k, v) \<in> set (pick ks a)" by simp
        then show False using a pick_member by fastforce
      qed
      with a Some show ?thesis by (simp add: cons)
    qed
  next
    case (Some v)
    note a = this
    show ?thesis
    proof (cases "getProp k b")
      case None
      have "(k, v) # pick ks a \<noteq> pick ks b"
      proof
        assume "(k, v) # pick ks a = pick ks b"
        then have "(k, v) \<in> set (pick ks b)" by (metis list.set_intros(1))
        then show False using None pick_member by fastforce
      qed
      with a None show ?thesis by (simp add: cons)
    next
      case (Some w)
      with a Cons show ?thesis by (auto simp add: cons)
    qed
  qed
qed

lemma pick_name_dataSource:
  "pick [''name'', ''dataSource''] a = pick [''name'', ''dataSource''] b
     \<longleftrightarrow> name a = name b \<and> dataSource a = dataSource b"
  by (simp add: pick_eq_iff getProp_def)

lemma map_of_pick:
  "map_of (pick [''name'', ''dataSource''] g) ''name'' = name g"
  "map_of (pick [''name'', ''dataSource''] g) ''dataSource'' = dataSource g"
  by (cases "name g"; cases "dataSource g";
      simp add: pick_def List.map_filter_simps getProp_def)+

lemma difference_acc_set:
  "set (difference_acc out first second) = set out \<union> (set first - set second)"
  by (induction out first second rule: difference_acc.induct) auto

lemma difference_acc_distinct:
  "distinct out \<Longrightarrow> distinct (difference_acc out first second)"
  by (induction out first second rule: difference_acc.induct) auto

lemma set_difference: "set (difference first second) = set first - set second"
  by (simp add: difference_def difference_acc_set)

lemma distinct_difference: "distinct (difference first second)"
  by (simp add: difference_def difference_acc_distinct)

lemma find_first: "x \<in> set xs \<Longrightarrow> P x \<Longrightarrow> \<exists>y. find P xs = Some y \<and> P y \<and> y \<in> set xs"
  by (induction xs) auto

lemma choose_list: "\<forall>x\<in>set xs. \<exists>y. Q x y \<Longrightarrow> \<exists>ys. list_all2 Q xs ys"
proof (induction xs)
  case Nil
  then show ?case by simp
next
  case (Cons x xs)
  then obtain y ys where "Q x y" "list_all2 Q xs ys" by auto
  then have "list_all2 Q (x # xs) (y # ys)" by simp
  then show ?case by blast
qed

subsection \<open>The duplicate check of the functions reconciler\<close>

lemma checkForDuplicates_fails_iff:
  "checkForDuplicates keys fs = Inl ConfigurationError \<longleftrightarrow> \<not> distinct (map (pick keys) fs)"
  by (induction fs) auto

lemma checkForDuplicates_passes_iff:
  "checkForDuplicates keys fs = Inr () \<longleftrightarrow> distinct (map (pick keys) fs)"
  by (induction fs) auto

lemma functionWithTemplates_error:
  "functionWithTemplates fs cfg f = Inl e \<Longrightarrow> e = TypeError"
  by (auto simp: functionWithTemplates_def Let_def split: option.splits)

lemma deployFunction_error:
  "snd (deployFunction client cfg f) = Inl e \<Longrightarrow> \<exists>code. e = AwsError code"
  by (auto simp: deployFunction_def Let_def split: if_splits sum.splits option.splits)

lemma functionsWithTemplates_error:
  "functionsWithTemplates fs cfg = Inl e \<Longrightarrow> e = TypeError"
  unfolding functionsWithTemplates_def
  by (drule sequence_Inl) (auto dest: functionWithTemplates_error [OF sym])

lemma promise_all_deploy_error:
  "snd (promise_all (map (deployFunction client cfg) xs)) = Inl e \<Longrightarrow> \<exists>code. e = AwsError code"
  unfolding promise_all_def
  by (auto dest!: sequence_Inl deployFunction_error [OF sym])

lemma createOrUpdateFunctions_duplicates:
  "\<not> distinct (map (pick [''name'', ''dataSource'']) (defaultToAnArray (config_functions cfg)))
     \<Longrightarrow> createOrUpdateFunctions client fs cfg = ([], Inl ConfigurationError)"
  by (simp add: createOrUpdateFunctions_def checkForDuplicates_fails_iff [symmetric])

lemma createOrUpdateFunctions_no_duplicates:
  assumes "distinct (map (pick [''name'', ''dataSource'']) (defaultToAnArray (config_functions cfg)))"
  shows "snd (createOrUpdateFunctions client fs cfg) \<noteq> Inl ConfigurationError"
proof -
  from assms have ok: "checkForDuplicates [''name'', ''dataSource''] (defaultToAnArray (config_functions cfg)) = Inr ()"
    by (simp add: checkForDuplicates_passes_iff)
  show ?thesis
  proof (cases "listFunctions client")
    case (Inl code)
    with ok show ?thesis by (simp add: createOrUpdateFunctions_def)
  next
    case (Inr deployed)
    note listed = this
    show ?thesis
    proof (cases "functionsWithTemplates fs cfg")
      case (Inl e)
      with ok listed functionsWithTemplates_error [OF Inl] show ?thesis
        by (simp add: createOrUpdateFunctions_def)
    next
      case (Inr resolved)
      have "snd (promise_all (map (deployFunction client cfg) (map (functionToDeploy deployed) resolved))) \<noteq> Inl ConfigurationError"
        using promise_all_deploy_error by fastforce
      with ok listed Inr show ?thesis
        by (simp add: createOrUpdateFunctions_def Let_def split_beta del: map_map)
    qed
  qed
qed


subsection \<open>Unnamed API keys\<close>

lemma apiKeyToDeploy_unnamed:
  "key_name k = None \<Longrightarrow> apiKeyToDeploy stateApiKeys k = Inl ConfigurationError"
  by (simp add: apiKeyToDeploy_def checkForRequired_def hasKeyProp_def)

lemma apiKeyToDeploy_error:
  "apiKeyToDeploy stateApiKeys k = Inl e \<Longrightarrow> e = ConfigurationError"
  by (auto simp: apiKeyToDeploy_def checkForRequired_def split: if_splits option.splits sum.splits)

lemma apiKeysToDeploy_unnamed:
  assumes "k \<in> set (formatInputApiKeys (config_apiKeys cfg))" "key_name k = None"
  shows "apiKeysToDeploy deployed cfg st = Inl ConfigurationError"
proof -
  let ?rs = "map (apiKeyToDeploy (stateApiKeysOf deployed st)) (formatInputApiKeys (config_apiKeys cfg))"
  from assms have "Inl ConfigurationError \<in> set ?rs"
    using apiKeyToDeploy_unnamed [of k "stateApiKeysOf deployed st"] by force
  then obtain e where e: "sequence ?rs = Inl e" using sequence_fails by blast
  then have "Inl e \<in> set ?rs" by (rule sequence_Inl)
  then have "e = ConfigurationError" using apiKeyToDeploy_error by fastforce
  with e show ?thesis by (simp add: apiKeysToDeploy_def)
qed

subsection \<open>The polling loop\<close>

lemma pollSchemaCreation_terminal:
  assumes "getSchemaCreationStatus client n = Inr s"
      and "s \<in> set [''FAILED'', ''SUCCESS'', ''NOT_APPLICABLE'']"
  shows "pollSchemaCreation client cfg n calls
           = Some (calls @ [GetSchemaCreationStatus (apiId cfg)], Inr ())"
  using assms by (subst pollSchemaCreation.simps) simp

lemma pollSchemaCreation_waiting:
  assumes "getSchemaCreationStatus client n = Inr s"
      and "s \<notin> set [''FAILED'', ''SUCCESS'', ''NOT_APPLICABLE'']"
  shows "pollSchemaCreation client cfg n calls
           = pollSchemaCreation client cfg (Suc n)
               (calls @ [GetSchemaCreationStatus (apiId cfg), Sleep 1000])"
  using assms by (subst pollSchemaCreation.simps) simp

lemma pollSchemaCreation_exits:
  assumes "\<forall>i<m. \<exists>s. getSchemaCreationStatus client (n + i) = Inr s
                     \<and> s \<notin> set [''FAILED'', ''SUCCESS'', ''NOT_APPLICABLE'']"
      and "getSchemaCreationStatus client (n + m) = Inr s"
      and "s \<in> set [''FAILED'', ''SUCCESS'', ''NOT_APPLICABLE'']"
  shows "pollSchemaCreation client cfg n calls
           = Some (calls @ concat (replicate m [GetSchemaCreationStatus (apiId cfg), Sleep 1000])
                     @ [GetSchemaCreationStatus (apiId cfg)], Inr ())"
  using assms
proof (induction m arbitrary: n calls)
  case 0
  then show ?case using pollSchemaCreation_terminal [of client n s cfg calls] by simp
next
  case (Suc m)
  from Suc.prems(1) obtain s0 where s0: "getSchemaCreationStatus client n = Inr s0"
      "s0 \<notin> set [''FAILED'', ''SUCCESS'', ''NOT_APPLICABLE'']"
    by force
  have later: "\<forall>i<m. \<exists>s. getSchemaCreationStatus client (Suc n + i) = Inr s
                     \<and> s \<notin> set [''FAILED'', ''SUCCESS'', ''NOT_APPLICABLE'']"
  proof (intro allI impI)
    fix i assume "i < m"
    then have "Suc i < Suc m" by simp
    with Suc.prems(1) show "\<exists>s. getSchemaCreationStatus client (Suc n + i) = Inr s
                     \<and> s \<notin> set [''FAILED'', ''SUCCESS'', ''NOT_APPLICABLE'']"
      by (metis add_Suc_shift)
  qed
  from Suc.prems(2) have last: "getSchemaCreationStatus client (Suc n + m) = Inr s" by simp
  have "pollSchemaCreation client cfg n calls
          = pollSchemaCreation client cfg (Suc n)
              (calls @ [GetSchemaCreationStatus (apiId cfg), Sleep 1000])"
    using s0 by (rule pollSchemaCreation_waiting)
  also have "\<dots> = Some ((calls @ [GetSchemaCreationStatus (apiId cfg), Sleep 1000])
                     @ concat (replicate m [GetSchemaCreationStatus (apiId cfg), Sleep 1000])
                     @ [GetSchemaCreationStatus (apiId cfg)], Inr ())"
    using Suc.IH [OF later last Suc.prems(3)] .
  finally show ?case by simp
qed

lemma pollSchemaCreation_returns:
  "pollSchemaCreation client cfg n calls = Some r
     \<Longrightarrow> \<exists>m\<ge>n. (case getSchemaCreationStatus client m of
                   Inl code \<Rightarrow> True
                 | Inr s \<Rightarrow> s \<in> set [''FAILED'', ''SUCCESS'', ''NOT_APPLICABLE''])"
proof (rule pollSchemaCreation.raw_induct
    [where P = "\<lambda>client cfg n calls r. \<exists>m\<ge>n. (case getSchemaCreationStatus client m of
                   Inl code \<Rightarrow> True
                 | Inr s \<Rightarrow> s \<in> set [''FAILED'', ''SUCCESS'', ''NOT_APPLICABLE''])"
     and client = client and cfg = cfg and n = n and calls = calls and y = r])
  fix poll :: "appSync \<Rightarrow> config \<Rightarrow> nat \<Rightarrow> call list \<Rightarrow> (call list \<times> (error + unit)) option"
    and client cfg n calls r
  assume IH: "\<And>client cfg n calls r. poll client cfg n calls = Some r \<Longrightarrow>
        \<exists>m\<ge>n. (case getSchemaCreationStatus client m of
                   Inl code \<Rightarrow> True
                 | Inr s \<Rightarrow> s \<in> set [''FAILED'', ''SUCCESS'', ''NOT_APPLICABLE''])"
  assume body: "(case getSchemaCreationStatus client n of
        Inl code \<Rightarrow> Some (calls @ [GetSchemaCreationStatus (apiId cfg)], Inl (AwsError code))
      | Inr status \<Rightarrow>
          if status \<in> set [''FAILED'', ''SUCCESS'', ''NOT_APPLICABLE'']
          then Some (calls @ [GetSchemaCreationStatus (apiId cfg)], Inr ())
          else poll client cfg (Suc n)
                 (calls @ [GetSchemaCreationStatus (apiId cfg), Sleep 1000])) = Some r"
  show "\<exists>m\<ge>n. (case getSchemaCreationStatus client m of
                   Inl code \<Rightarrow> True
                 | Inr s \<Rightarrow> s \<in> set [''FAILED'', ''SUCCESS'', ''NOT_APPLICABLE''])"
  proof (cases "getSchemaCreationStatus client n")
    case (Inl code)
    then show ?thesis by (intro exI [of _ n]) simp
  next
    case (Inr s)
    show ?thesis
    proof (cases "s \<in> set [''FAILED'', ''SUCCESS'', ''NOT_APPLICABLE'']")
      case True
      with Inr show ?thesis by (intro exI [of _ n]) simp
    next
      case False
      with Inr body have "poll client cfg (Suc n)
          (calls @ [GetSchemaCreationStatus (apiId cfg), Sleep 1000]) = Some r"
        by simp
      from IH [OF this] obtain m where "m \<ge> Suc n"
        "(case getSchemaCreationStatus client m of
                   Inl code \<Rightarrow> True
                 | Inr s \<Rightarrow> s \<in> set [''FAILED'', ''SUCCESS'', ''NOT_APPLICABLE''])"
        by blast
      then show ?thesis by (intro exI [of _ m]) simp
    qed
  qed
qed

lemma pollSchemaCreation_never_returns:
  assumes "\<forall>i. \<exists>s. getSchemaCreationStatus client i = Inr s
                  \<and> s \<notin> set [''FAILED'', ''SUCCESS'', ''NOT_APPLICABLE'']"
  shows "pollSchemaCreation client cfg n calls = None"
proof (cases "pollSchemaCreation client cfg n calls")
  case None
  then show ?thesis .
next
  case (Some r)
  from pollSchemaCreation_returns [OF Some] obtain m where
    m: "(case getSchemaCreationStatus client m of
                   Inl code \<Rightarrow> True
                 | Inr s \<Rightarrow> s \<in> set [''FAILED'', ''SUCCESS'', ''NOT_APPLICABLE''])"
    by blast
  from assms obtain s where "getSchemaCreationStatus client m = Inr s"
      "s \<notin> set [''FAILED'', ''SUCCESS'', ''NOT_APPLICABLE'']"
    by blast
  with m show ?thesis by simp
qed

subsection \<open>Obsolete functions\<close>

lemma removeFunction_obsolete:
  assumes "p \<in> set (obsoleteFunctions cfg st)"
  shows "\<exists>f. f \<in> set (state_functions st) \<and> pick [''name'', ''dataSource''] f = p
           \<and> removeFunction client cfg st p
               = ([DeleteFunction (apiId cfg) (functionId f)],
                  case deleteFunction client (functionId f) of
                    None \<Rightarrow> Inr ()
                  | Some code \<Rightarrow> if code \<noteq> ''NotFoundException'' then Inl (AwsError code) else Inr ())"
proof -
  from assms obtain g where g: "g \<in> set (state_functions st)" "p = pick [''name'', ''dataSource''] g"
    by (auto simp: obsoleteFunctions_def set_difference)
  let ?P = "\<lambda>f. name f = map_of p ''name'' \<and> dataSource f = map_of p ''dataSource''"
  from g have "?P g" by (simp add: map_of_pick)
  with g(1) obtain f where f: "find ?P (state_functions st) = Some f" "?P f" "f \<in> set (state_functions st)"
    using find_first [of g "state_functions st" ?P] by blast
  from f(2) g(2) have "pick [''name'', ''dataSource''] f = p"
    by (simp add: map_of_pick pick_name_dataSource)
  with f show ?thesis by (intro exI [of _ f]) (simp add: removeFunction_def)
qed

lemma removeObsoleteFunctions_deleted:
  "\<exists>deleted.
     set deleted \<subseteq> set (state_functions st)
     \<and> map (pick [''name'', ''dataSource'']) deleted = obsoleteFunctions cfg st
     \<and> fst (removeObsoleteFunctions client cfg st)
         = map (\<lambda>f. DeleteFunction (apiId cfg) (functionId f)) deleted
     \<and> snd (removeObsoleteFunctions client cfg st)
         = sequence (map (\<lambda>f. case deleteFunction client (functionId f) of
                    None \<Rightarrow> Inr ()
                  | Some code \<Rightarrow> if code \<noteq> ''NotFoundException'' then Inl (AwsError code) else Inr ())
              deleted)"
proof -
  let ?out = "\<lambda>f. case deleteFunction client (functionId f) of
                    None \<Rightarrow> Inr ()
                  | Some code \<Rightarrow> if code \<noteq> ''NotFoundException'' then Inl (AwsError code) else Inr ()"
  let ?Q = "\<lambda>p f. f \<in> set (state_functions st) \<and> pick [''name'', ''dataSource''] f = p
           \<and> removeFunction client cfg st p
               = ([DeleteFunction (apiId cfg) (functionId f)], ?out f)"
  have "\<forall>p\<in>set (obsoleteFunctions cfg st). \<exists>f. ?Q p f"
    using removeFunction_obsolete [of _ cfg st client] by blast
  then obtain deleted where all: "list_all2 ?Q (obsoleteFunctions cfg st) deleted"
    using choose_list [of "obsoleteFunctions cfg st" ?Q] by blast
  have gen: "list_all2 ?Q ps fs \<Longrightarrow>
      set fs \<subseteq> set (state_functions st)
      \<and> map (pick [''name'', ''dataSource'']) fs = ps
      \<and> map (removeFunction client cfg st) ps
          = map (\<lambda>f. ([DeleteFunction (apiId cfg) (functionId f)], ?out f)) fs" for ps fs
    by (induction ps fs rule: list_all2_induct) auto
  from gen [OF all] have
    sub: "set deleted \<subseteq> set (state_functions st)"
    and proj: "map (pick [''name'', ''dataSource'']) deleted = obsoleteFunctions cfg st"
    and runs: "map (removeFunction client cfg st) (obsoleteFunctions cfg st)
          = map (\<lambda>f. ([DeleteFunction (apiId cfg) (functionId f)], ?out f)) deleted"
    by blast+
  have calls: "fst (removeObsoleteFunctions client cfg st)
         = map (\<lambda>f. DeleteFunction (apiId cfg) (functionId f)) deleted"
    by (simp add: removeObsoleteFunctions_def promise_all_def runs comp_def)
  have result: "snd (removeObsoleteFunctions client cfg st) = sequence (map ?out deleted)"
    by (simp add: removeObsoleteFunctions_def promise_all_def runs comp_def)
  from sub proj calls result show ?thesis by blast
qed

lemma obsolete_keys:
  assumes "map (pick [''name'', ''dataSource'']) deleted = difference (map (pick [''name'', ''dataSource'']) prior) (map (pick [''name'', ''dataSource'']) desired)"
  shows "distinct (map (\<lambda>f. (name f, dataSource f)) deleted)
       \<and> set (map (\<lambda>f. (name f, dataSource f)) deleted)
           = set (map (\<lambda>f. (name f, dataSource f)) prior)
             - set (map (\<lambda>f. (name f, dataSource f)) desired)"
proof -
  define pk where "pk = pick [''name'', ''dataSource'']"
  define key where "key = (\<lambda>f::func. (name f, dataSource f))"
  have same: "pk a = pk b \<longleftrightarrow> key a = key b" for a b
    by (simp add: pk_def key_def pick_name_dataSource)
  have d: "distinct (map pk deleted)" using assms by (simp add: pk_def distinct_difference)
  have s: "set (map pk deleted) = set (map pk prior) - set (map pk desired)"
    using assms by (simp add: pk_def set_difference)
  have mem: "key f \<in> key ` set xs \<longleftrightarrow> pk f \<in> pk ` set xs" for f xs
    unfolding image_iff using same by simp
  have "distinct (map key deleted)"
  proof -
    have "inj_on pk (set deleted)" and "distinct deleted" using d by (simp_all add: distinct_map)
    moreover from \<open>inj_on pk (set deleted)\<close> have "inj_on key (set deleted)"
      unfolding inj_on_def using same by blast
    ultimately show ?thesis by (simp add: distinct_map)
  qed
  moreover have "key ` set deleted = key ` set prior - key ` set desired"
  proof (intro set_eqI iffI)
    fix k assume "k \<in> key ` set deleted"
    then obtain f where f: "f \<in> set deleted" "k = key f" by blast
    then have "pk f \<in> pk ` set deleted" by blast
    then have "pk f \<in> pk ` set prior" "pk f \<notin> pk ` set desired" using s by auto
    then have "key f \<in> key ` set prior" "key f \<notin> key ` set desired" by (simp_all add: mem)
    with f(2) show "k \<in> key ` set prior - key ` set desired" by simp
  next
    fix k assume "k \<in> key ` set prior - key ` set desired"
    then obtain g where g: "g \<in> set prior" "k = key g" "key g \<notin> key ` set desired" by blast
    from g(1) have "key g \<in> key ` set prior" by blast
    with g(3) have "pk g \<in> pk ` set prior" "pk g \<notin> pk ` set desired" by (simp_all add: mem)
    then have "pk g \<in> pk ` set deleted" using s by simp
    then have "key g \<in> key ` set deleted" by (simp add: mem)
    with g(2) show "k \<in> key ` set deleted" by simp
  qed
  ultimately show ?thesis by (simp add: key_def)
qed

subsection \<open>The templates of a function, and data sources with their own role\<close>

text \<open>
  Whatever the item, both resolved templates are the contents of the file its
  \<open>request\<close> field names; and whenever every data source has its own role,
  \<open>createServiceRole\<close> is \<open>createRole\<close> with no statement.
\<close>

lemma functionWithTemplates_templates:
  assumes "functionWithTemplates fs cfg f = Inr g"
  shows "\<exists>req. request f = Some req
           \<and> requestMappingTemplate g = Some (readIfFile fs (path_join (src cfg) req))
           \<and> responseMappingTemplate g = Some (readIfFile fs (path_join (src cfg) req))"
  using assms by (auto simp: functionWithTemplates_def Let_def split: option.splits)

lemma addDataSource_explicit:
  "\<forall>ds\<in>set dss. serviceRoleArn ds \<noteq> None \<Longrightarrow> foldl addDataSource acc dss = acc"
  by (induction dss arbitrary: acc) (auto simp: addDataSource_def)

lemma createServiceRole_explicit:
  assumes "\<forall>ds\<in>set (dataSources inputs). serviceRoleArn ds \<noteq> None"
  shows "createServiceRole client esDomain account inputs = createRole client [] (api_name inputs)"
  using addDataSource_explicit [OF assms, of "[]"]
  by (simp add: createServiceRole_def statementsOf_def truthyArray_def)

subsection \<open>The expiry sent for a number\<close>







subsection \<open>The calls and the modes of the functions reconciler\<close>

lemma sequence_Inr: "sequence rs = Inr vs \<Longrightarrow> rs = map Inr vs"
  by (induction rs arbitrary: vs rule: sequence.induct) (auto split: sum.splits)

lemma functionWithTemplates_fields:
  assumes "functionWithTemplates fs cfg desired = Inr f"
  shows "name f = name desired" "dataSource f = dataSource desired"
    "dataSourceName f = dataSource desired"
  using assms by (auto simp: functionWithTemplates_def Let_def split: option.splits)

lemma deployFunction_result:
  assumes "snd (deployFunction client cfg f) = Inr r"
  shows "mode r = mode f" "name r = name f" "dataSource r = dataSource f"
    "dataSourceName r = dataSourceName f"
    "requestMappingTemplate r = requestMappingTemplate f"
    "responseMappingTemplate r = responseMappingTemplate f"
    "fst (deployFunction client cfg f)
       = (if mode r = Some ''create'' then [CreateFunction (functionParamsOf cfg r)]
          else if mode r = Some ''update''
          then [UpdateFunction ((functionParamsOf cfg r)\<lparr>p_functionId := functionId r\<rparr>)]
          else [])"
  using assms
  by (auto simp: deployFunction_def Let_def functionParamsOf_def
           split: if_splits sum.splits option.splits)

lemma distinct_keys_picks:
  "distinct (map (pick [''name'', ''dataSource'']) xs)
     \<longleftrightarrow> distinct (map (\<lambda>f::func. (name f, dataSource f)) xs)"
proof -
  have "inj_on (pick [''name'', ''dataSource'']) (set xs)
          \<longleftrightarrow> inj_on (\<lambda>f::func. (name f, dataSource f)) (set xs)"
    unfolding inj_on_def by (simp add: pick_name_dataSource)
  then show ?thesis by (simp add: distinct_map)
qed

lemma functionsWithTemplates_resolved:
  assumes "functionsWithTemplates fs cfg = Inr resolved"
  shows "length resolved = length (defaultToAnArray (config_functions cfg))"
    and "\<forall>i<length resolved.
           functionWithTemplates fs cfg (defaultToAnArray (config_functions cfg) ! i)
             = Inr (resolved ! i)"
proof -
  from assms have eq: "map (functionWithTemplates fs cfg) (defaultToAnArray (config_functions cfg))
      = map Inr resolved"
    unfolding functionsWithTemplates_def by (rule sequence_Inr)
  then show len: "length resolved = length (defaultToAnArray (config_functions cfg))"
    by (metis length_map)
  show "\<forall>i<length resolved.
           functionWithTemplates fs cfg (defaultToAnArray (config_functions cfg) ! i)
             = Inr (resolved ! i)"
  proof (intro allI impI)
    fix i assume i: "i < length resolved"
    then have "map (functionWithTemplates fs cfg) (defaultToAnArray (config_functions cfg)) ! i
        = map Inr resolved ! i" using eq by simp
    with i len show "functionWithTemplates fs cfg (defaultToAnArray (config_functions cfg) ! i)
             = Inr (resolved ! i)" by simp
  qed
qed

lemma functionToDeploy_resolved:
  assumes "dataSourceName f = dataSource f"
  shows "mode (functionToDeploy deployed f)
           = (case find (\<lambda>d. name d = name f \<and> dataSourceName d = dataSource f) deployed of
                None \<Rightarrow> Some ''create''
              | Some d \<Rightarrow>
                  if dataSourceName d = dataSource f \<and> name d = name f
                     \<and> responseMappingTemplate d = responseMappingTemplate f
                     \<and> requestMappingTemplate d = requestMappingTemplate f
                  then Some ''ignore'' else Some ''update'')"
    and "functionId (functionToDeploy deployed f)
           = (case find (\<lambda>d. name d = name f \<and> dataSourceName d = dataSource f) deployed of
                None \<Rightarrow> None | Some d \<Rightarrow> functionId d)"
    and "functionParamsOf cfg (functionToDeploy deployed f) = functionParamsOf cfg f"
  using assms
  by (auto simp: functionToDeploy_def Let_def equalsByKeys_def getProp_def functionParamsOf_def
           split: option.splits)

lemma deployFunction_calls:
  "fst (deployFunction client cfg f)
     = (if mode f = Some ''create'' then [CreateFunction (functionParamsOf cfg f)]
        else if mode f = Some ''update''
        then [UpdateFunction ((functionParamsOf cfg f)\<lparr>p_functionId := functionId f\<rparr>)]
        else [])"
  by (simp add: deployFunction_def Let_def)

lemma deployFunction_resolved_calls:
  assumes "dataSourceName f = dataSource f"
  shows "fst (deployFunction client cfg (functionToDeploy deployed f))
     = (case find (\<lambda>d. name d = name f \<and> dataSourceName d = dataSource f) deployed of
          None \<Rightarrow> [CreateFunction (functionParamsOf cfg f)]
        | Some d \<Rightarrow>
            if dataSourceName d = dataSource f \<and> name d = name f
               \<and> responseMappingTemplate d = responseMappingTemplate f
               \<and> requestMappingTemplate d = requestMappingTemplate f
            then []
            else [UpdateFunction ((functionParamsOf cfg f)\<lparr>p_functionId := functionId d\<rparr>)])"
  unfolding deployFunction_calls functionToDeploy_resolved [OF assms]
  by (simp split: option.splits)

section \<open>The claims\<close>

text \<open>
  Claim C1. When every data source carries an explicit \<open>serviceRoleArn\<close>, no data
  source needs a synthesized role and \<open>createServiceRole\<close> should create no role and
  no policy. The source guards \<open>createRole\<close> with \<open>if (statements)\<close>, and the
  statements are an array, which is truthy even when empty: with one Lambda data source
  that has its own role, \<open>createServiceRole\<close> computes no statement and still calls
  \<open>createRole\<close>, \<open>createPolicy\<close> (with the empty statement list) and
  \<open>attachRolePolicy\<close>.
\<close>

theorem createServiceRole_explicit_roles:
  "createServiceRole idleIam (\<lambda>endpoint. None) ''123456789012''
     (emptyConfig\<lparr>dataSources :=
        [\<lparr>ds_type = ''AWS_LAMBDA'',
          serviceRoleArn = Some ''arn:aws:iam::123456789012:role/mine'',
          ds_config = \<lparr>lambdaFunctionArn = Some ''arn:aws:lambda:us-east-1:123456789012:function:f'',
                       region = None, accountId = None, tableName = None, endpoint = None,
                       dbClusterIdentifier = None, awsSecretStoreArn = None\<rparr>\<rparr>]\<rparr>)
   = ([CreateRole ''api-role'', CreatePolicy ''api-policy'' [],
       AttachRolePolicy ''api-role'' ''arn:aws:iam::1:policy/api-policy'', Sleep 10000],
      Inr (Some (''arn:aws:iam::1:role/api-role'', ''arn:aws:iam::1:policy/api-policy'')))"
  by (simp add: createServiceRole_def statementsOf_def addDataSource_def truthyArray_def
        createRole_def idleIam_def emptyConfig_def Let_def)

text \<open>
  Claim C2. A second run with the same desired input and a provider that nothing else
  touched should classify every item \<open>ignore\<close>. For an API key whose \<open>expires\<close> is
  given in milliseconds it does not: the first run creates the key with the expiry in
  seconds, the provider lists the key with that expiry, and the second run compares the
  configured milliseconds with the listed seconds, classifies the key \<open>update\<close> and
  calls \<open>updateApiKey\<close>.
\<close>

theorem syncApiKeys_second_run_updates:
  "syncApiKeys (\<lambda>s. None)
     (emptyConfig\<lparr>config_apiKeys :=
        Array [KeyObject (emptyKey\<lparr>key_name := Some ''k'',
                                   key_expires := Some (ExpNum 1700000000000)\<rparr>)]\<rparr>)
     ([], emptyState)
   = ([ListApiKeys ''api-1'', CreateApiKey ''api-1'' None (Some (Num 1700000000))],
      [emptyKey\<lparr>key_id := Some ''key-i'', key_expires := Some (ExpNum 1700000000)\<rparr>],
      emptyState\<lparr>state_apiKeys := [emptyKey\<lparr>key_name := Some ''k'', key_id := Some ''key-i''\<rparr>]\<rparr>)
   \<and> apiKeysToDeploy
       [emptyKey\<lparr>key_id := Some ''key-i'', key_expires := Some (ExpNum 1700000000)\<rparr>]
       (emptyConfig\<lparr>config_apiKeys :=
          Array [KeyObject (emptyKey\<lparr>key_name := Some ''k'',
                                     key_expires := Some (ExpNum 1700000000000)\<rparr>)]\<rparr>)
       (emptyState\<lparr>state_apiKeys := [emptyKey\<lparr>key_name := Some ''k'', key_id := Some ''key-i''\<rparr>]\<rparr>)
     = Inr [emptyKey\<lparr>key_name := Some ''k'', key_id := Some ''key-i'',
                     key_expires := Some (ExpNum 1700000000000), key_mode := Some ''update''\<rparr>]
   \<and> fst (syncApiKeys (\<lambda>s. None)
       (emptyConfig\<lparr>config_apiKeys :=
          Array [KeyObject (emptyKey\<lparr>key_name := Some ''k'',
                                     key_expires := Some (ExpNum 1700000000000)\<rparr>)]\<rparr>)
       ([emptyKey\<lparr>key_id := Some ''key-i'', key_expires := Some (ExpNum 1700000000)\<rparr>],
        emptyState\<lparr>state_apiKeys := [emptyKey\<lparr>key_name := Some ''k'', key_id := Some ''key-i''\<rparr>]\<rparr>))
     = [ListApiKeys ''api-1'', UpdateApiKey ''api-1'' (Some ''key-i'') None (Some (Num 1700000000))]"
  by (simp add: syncApiKeys_def createOrUpdateApiKeys_def apiKeysToDeploy_def apiKeyToDeploy_def
        checkForRequired_def hasKeyProp_def formatInputApiKeys_def stateApiKeysOf_def
        List.map_filter_simps mergeKey_def promise_all_def deployApiKey_def expiresOf_def
        dateToParse_def getTime_def jsTruncate_def pickNameId_def keyProvider_def freshKeyId_def
        emptyConfig_def emptyKey_def emptyState_def Let_def)

text \<open>
  Claim C3, as stated: with no schema in the configuration and a caller that is not the
  creator of the API, \<open>createSchema\<close> makes no call and returns the schema checksum
  of the prior state. It makes no call, but it returns \<open>undefined\<close>: with the prior
  checksum \<open>abc\<close> the result is not that checksum.
\<close>

theorem createSchema_skipped_counterexample:
  "schema emptyConfig = None \<and> \<not> isApiCreator emptyConfig
   \<and> schemaChecksum (emptyState\<lparr>schemaChecksum := Some ''abc''\<rparr>) = Some ''abc''
   \<and> createSchema idleClient Map.empty (\<lambda>schemaText. schemaText) emptyConfig
        (emptyState\<lparr>schemaChecksum := Some ''abc''\<rparr>) = Some ([], Inr None)
   \<and> createSchema idleClient Map.empty (\<lambda>schemaText. schemaText) emptyConfig
        (emptyState\<lparr>schemaChecksum := Some ''abc''\<rparr>)
       \<noteq> Some ([], Inr (schemaChecksum (emptyState\<lparr>schemaChecksum := Some ''abc''\<rparr>)))"
  by (simp add: createSchema_def emptyConfig_def emptyState_def)

text \<open>
  Claim C3, amended: with no schema in the configuration and a caller that is not the
  creator of the API, \<open>createSchema\<close> returns at once, makes no call (so no
  \<open>startSchemaCreation\<close>) and returns no checksum (\<open>undefined\<close>), whatever the
  prior state holds.
\<close>

theorem createSchema_skipped:
  "schema cfg = None \<and> \<not> isApiCreator cfg
     \<longrightarrow> createSchema client fs checksum cfg st = Some ([], Inr None)"
  by (simp add: createSchema_def)

theorem createSchema_skipped_witness:
  "schema emptyConfig = None \<and> \<not> isApiCreator emptyConfig
   \<and> createSchema idleClient Map.empty (\<lambda>schemaText. schemaText) emptyConfig emptyState
       = Some ([], Inr None)"
  using createSchema_skipped [of emptyConfig idleClient Map.empty "\<lambda>schemaText. schemaText" emptyState]
  by (simp add: emptyConfig_def)

text \<open>
  Claim C4. The resolved \<open>responseMappingTemplate\<close> of a desired function should be
  the contents of the file its \<open>response\<close> field names. The source reads the file of
  the \<open>request\<close> field for both templates: with \<open>req.vtl\<close> holding \<open>REQ\<close> and
  \<open>res.vtl\<close> holding \<open>RES\<close>, the resolved response template is \<open>REQ\<close>.
\<close>

theorem functionWithTemplates_response_from_request:
  "functionWithTemplates [''src/req.vtl'' \<mapsto> ''REQ'', ''src/res.vtl'' \<mapsto> ''RES''] emptyConfig
     (emptyFunc\<lparr>name := Some ''f'', dataSource := Some ''A'',
                request := Some ''req.vtl'', response := Some ''res.vtl''\<rparr>)
   = Inr (emptyFunc\<lparr>name := Some ''f'', dataSource := Some ''A'',
                     request := Some ''req.vtl'', response := Some ''res.vtl'',
                     requestMappingTemplate := Some ''REQ'',
                     responseMappingTemplate := Some ''REQ'',
                     dataSourceName := Some ''A''\<rparr>)"
  by (simp add: functionWithTemplates_def readIfFile_def path_join_def emptyConfig_def
                emptyFunc_def)




text \<open>
  Claim C6. Let the desired functions have no duplicate, the listing of the deployed
  functions succeed, and every desired item resolve its templates. Then
  \<open>createOrUpdateFunctions\<close> classifies each resolved item, which has the \<open>name\<close>
  and the \<open>dataSource\<close> of the desired item at its place, by the first deployed
  function with that \<open>name\<close> and, as \<open>dataSourceName\<close>, that \<open>dataSource\<close>:
  without such a function it calls \<open>createFunction\<close> for the item and the item
  returned has the mode \<open>create\<close>; with one that differs from the item in
  \<open>dataSourceName\<close>, \<open>name\<close>, \<open>responseMappingTemplate\<close> or
  \<open>requestMappingTemplate\<close> it calls \<open>updateFunction\<close> with the identifier of that
  function and the mode is \<open>update\<close>; with one that agrees on the four it makes no call
  and the mode is \<open>ignore\<close>. These are, after the listing, all the calls of the run, in
  the order of the items.
\<close>

theorem createOrUpdateFunctions_classifies:
  assumes "distinct (map (\<lambda>f. (name f, dataSource f)) (defaultToAnArray (config_functions cfg)))"
      and "listFunctions client = Inr deployed"
      and "functionsWithTemplates fs cfg = Inr resolved"
  shows "length resolved = length (defaultToAnArray (config_functions cfg))
       \<and> (\<forall>i<length resolved.
             name (resolved ! i) = name (defaultToAnArray (config_functions cfg) ! i)
             \<and> dataSource (resolved ! i) = dataSource (defaultToAnArray (config_functions cfg) ! i))
       \<and> fst (createOrUpdateFunctions client fs cfg)
           = ListFunctions (apiId cfg)
             # concat (map (\<lambda>f.
                 case find (\<lambda>d. name d = name f \<and> dataSourceName d = dataSource f) deployed of
                   None \<Rightarrow> [CreateFunction (functionParamsOf cfg f)]
                 | Some d \<Rightarrow>
                     if dataSourceName d = dataSource f \<and> name d = name f
                        \<and> responseMappingTemplate d = responseMappingTemplate f
                        \<and> requestMappingTemplate d = requestMappingTemplate f
                     then []
                     else [UpdateFunction ((functionParamsOf cfg f)\<lparr>p_functionId := functionId d\<rparr>)])
               resolved)
       \<and> (\<forall>result. snd (createOrUpdateFunctions client fs cfg) = Inr result
             \<longrightarrow> length result = length resolved
                 \<and> (\<forall>i<length resolved.
                       mode (result ! i)
                         = (case find (\<lambda>d. name d = name (resolved ! i)
                                           \<and> dataSourceName d = dataSource (resolved ! i)) deployed of
                              None \<Rightarrow> Some ''create''
                            | Some d \<Rightarrow>
                                if dataSourceName d = dataSource (resolved ! i)
                                   \<and> name d = name (resolved ! i)
                                   \<and> responseMappingTemplate d = responseMappingTemplate (resolved ! i)
                                   \<and> requestMappingTemplate d = requestMappingTemplate (resolved ! i)
                                then Some ''ignore'' else Some ''update'')))"
proof -
  let ?xs = "defaultToAnArray (config_functions cfg)"
  let ?toDeploy = "map (functionToDeploy deployed) resolved"
  let ?runs = "map (deployFunction client cfg) ?toDeploy"
  note res = functionsWithTemplates_resolved [OF assms(3)]
  have own: "dataSourceName (resolved ! i) = dataSource (resolved ! i)"
      and same: "name (resolved ! i) = name (?xs ! i)" "dataSource (resolved ! i) = dataSource (?xs ! i)"
    if "i < length resolved" for i
    using res(2) that functionWithTemplates_fields [of fs cfg "?xs ! i" "resolved ! i"] by simp_all
  have own': "dataSourceName f = dataSource f" if "f \<in> set resolved" for f
    using that own by (auto simp: in_set_conv_nth)
  have unique: "checkForDuplicates [''name'', ''dataSource''] ?xs = Inr ()"
    using assms(1) by (simp add: checkForDuplicates_passes_iff distinct_keys_picks)
  have run: "createOrUpdateFunctions client fs cfg
      = (ListFunctions (apiId cfg) # fst (promise_all ?runs), snd (promise_all ?runs))"
    using unique assms(2,3)
    by (simp add: createOrUpdateFunctions_def Let_def split_beta del: map_map)
  have calls: "fst (promise_all ?runs)
      = concat (map (\<lambda>f.
                 case find (\<lambda>d. name d = name f \<and> dataSourceName d = dataSource f) deployed of
                   None \<Rightarrow> [CreateFunction (functionParamsOf cfg f)]
                 | Some d \<Rightarrow>
                     if dataSourceName d = dataSource f \<and> name d = name f
                        \<and> responseMappingTemplate d = responseMappingTemplate f
                        \<and> requestMappingTemplate d = requestMappingTemplate f
                     then []
                     else [UpdateFunction ((functionParamsOf cfg f)\<lparr>p_functionId := functionId d\<rparr>)])
               resolved)"
  proof -
    have "map fst ?runs = map (\<lambda>f. fst (deployFunction client cfg (functionToDeploy deployed f))) resolved"
      by simp
    also have "\<dots> = map (\<lambda>f.
                 case find (\<lambda>d. name d = name f \<and> dataSourceName d = dataSource f) deployed of
                   None \<Rightarrow> [CreateFunction (functionParamsOf cfg f)]
                 | Some d \<Rightarrow>
                     if dataSourceName d = dataSource f \<and> name d = name f
                        \<and> responseMappingTemplate d = responseMappingTemplate f
                        \<and> requestMappingTemplate d = requestMappingTemplate f
                     then []
                     else [UpdateFunction ((functionParamsOf cfg f)\<lparr>p_functionId := functionId d\<rparr>)])
               resolved"
      by (rule map_cong [OF refl]) (simp only: deployFunction_resolved_calls [OF own'])
    finally show ?thesis by (simp only: promise_all_def fst_conv)
  qed
  have modes: "length result = length resolved
                 \<and> (\<forall>i<length resolved.
                       mode (result ! i)
                         = (case find (\<lambda>d. name d = name (resolved ! i)
                                           \<and> dataSourceName d = dataSource (resolved ! i)) deployed of
                              None \<Rightarrow> Some ''create''
                            | Some d \<Rightarrow>
                                if dataSourceName d = dataSource (resolved ! i)
                                   \<and> name d = name (resolved ! i)
                                   \<and> responseMappingTemplate d = responseMappingTemplate (resolved ! i)
                                   \<and> requestMappingTemplate d = requestMappingTemplate (resolved ! i)
                                then Some ''ignore'' else Some ''update''))"
    if ok: "snd (createOrUpdateFunctions client fs cfg) = Inr result" for result
  proof -
    from ok run have "sequence (map snd ?runs) = Inr result" by (simp add: promise_all_def)
    then have eq: "map snd ?runs = map Inr result" by (rule sequence_Inr)
    then have len: "length result = length resolved" by (metis length_map)
    have "mode (result ! i)
            = (case find (\<lambda>d. name d = name (resolved ! i)
                              \<and> dataSourceName d = dataSource (resolved ! i)) deployed of
                 None \<Rightarrow> Some ''create''
               | Some d \<Rightarrow>
                   if dataSourceName d = dataSource (resolved ! i)
                      \<and> name d = name (resolved ! i)
                      \<and> responseMappingTemplate d = responseMappingTemplate (resolved ! i)
                      \<and> requestMappingTemplate d = requestMappingTemplate (resolved ! i)
                   then Some ''ignore'' else Some ''update'')"
      if i: "i < length resolved" for i
    proof -
      from eq have "map snd ?runs ! i = map Inr result ! i" by simp
      with i len have "snd (deployFunction client cfg (functionToDeploy deployed (resolved ! i)))
          = Inr (result ! i)" by simp
      then have "mode (result ! i) = mode (functionToDeploy deployed (resolved ! i))"
        by (rule deployFunction_result(1))
      then show ?thesis by (simp only: functionToDeploy_resolved(1) [OF own [OF i]])
    qed
    with len show ?thesis by blast
  qed
  show ?thesis
    using res(1) same run calls modes by simp
qed

theorem createOrUpdateFunctions_classifies_witness:
  "fst (createOrUpdateFunctions
          (idleClient\<lparr>listFunctions := Inr
             [emptyFunc\<lparr>name := Some ''b'', dataSourceName := Some ''A'', functionId := Some ''fn-b'',
                        requestMappingTemplate := Some ''REQ'',
                        responseMappingTemplate := Some ''REQ''\<rparr>,
              emptyFunc\<lparr>name := Some ''c'', dataSourceName := Some ''A'', functionId := Some ''fn-c'',
                        requestMappingTemplate := Some ''REQ'',
                        responseMappingTemplate := Some ''OLD''\<rparr>]\<rparr>)
          [''src/req.vtl'' \<mapsto> ''REQ'']
          (emptyConfig\<lparr>config_functions := Array
             [emptyFunc\<lparr>name := Some ''a'', dataSource := Some ''A'', request := Some ''req.vtl''\<rparr>,
              emptyFunc\<lparr>name := Some ''b'', dataSource := Some ''A'', request := Some ''req.vtl''\<rparr>,
              emptyFunc\<lparr>name := Some ''c'', dataSource := Some ''A'', request := Some ''req.vtl''\<rparr>]\<rparr>))
     = [ListFunctions ''api-1'',
        CreateFunction
          \<lparr>p_apiId = ''api-1'', p_name = Some ''a'', p_requestMappingTemplate = Some ''REQ'',
           p_responseMappingTemplate = Some ''REQ'', p_functionVersion = ''2018-05-29'',
           p_dataSourceName = Some ''A'', p_description = None, p_functionId = None\<rparr>,
        UpdateFunction
          \<lparr>p_apiId = ''api-1'', p_name = Some ''c'', p_requestMappingTemplate = Some ''REQ'',
           p_responseMappingTemplate = Some ''REQ'', p_functionVersion = ''2018-05-29'',
           p_dataSourceName = Some ''A'', p_description = None, p_functionId = Some ''fn-c''\<rparr>]
   \<and> (\<exists>result.
         snd (createOrUpdateFunctions
          (idleClient\<lparr>listFunctions := Inr
             [emptyFunc\<lparr>name := Some ''b'', dataSourceName := Some ''A'', functionId := Some ''fn-b'',
                        requestMappingTemplate := Some ''REQ'',
                        responseMappingTemplate := Some ''REQ''\<rparr>,
              emptyFunc\<lparr>name := Some ''c'', dataSourceName := Some ''A'', functionId := Some ''fn-c'',
                        requestMappingTemplate := Some ''REQ'',
                        responseMappingTemplate := Some ''OLD''\<rparr>]\<rparr>)
          [''src/req.vtl'' \<mapsto> ''REQ'']
          (emptyConfig\<lparr>config_functions := Array
             [emptyFunc\<lparr>name := Some ''a'', dataSource := Some ''A'', request := Some ''req.vtl''\<rparr>,
              emptyFunc\<lparr>name := Some ''b'', dataSource := Some ''A'', request := Some ''req.vtl''\<rparr>,
              emptyFunc\<lparr>name := Some ''c'', dataSource := Some ''A'', request := Some ''req.vtl''\<rparr>]\<rparr>))
           = Inr result
         \<and> length result = 3
         \<and> mode (result ! 0) = Some ''create''
         \<and> mode (result ! 1) = Some ''ignore''
         \<and> mode (result ! 2) = Some ''update'')"
proof -
  let ?rb = "emptyFunc\<lparr>name := Some ''b'', dataSourceName := Some ''A'', functionId := Some ''fn-b'',
                        requestMappingTemplate := Some ''REQ'',
                        responseMappingTemplate := Some ''REQ''\<rparr>"
  let ?rc = "emptyFunc\<lparr>name := Some ''c'', dataSourceName := Some ''A'', functionId := Some ''fn-c'',
                        requestMappingTemplate := Some ''REQ'',
                        responseMappingTemplate := Some ''OLD''\<rparr>"
  let ?client = "idleClient\<lparr>listFunctions := Inr [?rb, ?rc]\<rparr>"
  let ?fs = "[''src/req.vtl'' \<mapsto> ''REQ'']"
  let ?a = "emptyFunc\<lparr>name := Some ''a'', dataSource := Some ''A'', request := Some ''req.vtl''\<rparr>"
  let ?b = "emptyFunc\<lparr>name := Some ''b'', dataSource := Some ''A'', request := Some ''req.vtl''\<rparr>"
  let ?c = "emptyFunc\<lparr>name := Some ''c'', dataSource := Some ''A'', request := Some ''req.vtl''\<rparr>"
  let ?cfg = "emptyConfig\<lparr>config_functions := Array [?a, ?b, ?c]\<rparr>"
  let ?resolve = "\<lambda>f. f\<lparr>requestMappingTemplate := Some ''REQ'',
                         responseMappingTemplate := Some ''REQ'', dataSourceName := Some ''A''\<rparr>"
  let ?resolved = "[?resolve ?a, ?resolve ?b, ?resolve ?c]"
  have unique: "distinct (map (\<lambda>f. (name f, dataSource f)) (defaultToAnArray (config_functions ?cfg)))"
    by (simp add: emptyFunc_def)
  have listed: "listFunctions ?client = Inr [?rb, ?rc]" by simp
  have resolved: "functionsWithTemplates ?fs ?cfg = Inr ?resolved"
    by (simp add: functionsWithTemplates_def functionWithTemplates_def readIfFile_def
          path_join_def emptyConfig_def emptyFunc_def)
  note classified = createOrUpdateFunctions_classifies [OF unique listed resolved]
  from classified have calls: "fst (createOrUpdateFunctions ?client ?fs ?cfg)
           = ListFunctions (apiId ?cfg)
             # concat (map (\<lambda>f.
                 case find (\<lambda>d. name d = name f \<and> dataSourceName d = dataSource f) [?rb, ?rc] of
                   None \<Rightarrow> [CreateFunction (functionParamsOf ?cfg f)]
                 | Some d \<Rightarrow>
                     if dataSourceName d = dataSource f \<and> name d = name f
                        \<and> responseMappingTemplate d = responseMappingTemplate f
                        \<and> requestMappingTemplate d = requestMappingTemplate f
                     then []
                     else [UpdateFunction ((functionParamsOf ?cfg f)\<lparr>p_functionId := functionId d\<rparr>)])
               ?resolved)"
    by blast
  have trace: "fst (createOrUpdateFunctions ?client ?fs ?cfg)
     = [ListFunctions ''api-1'',
        CreateFunction
          \<lparr>p_apiId = ''api-1'', p_name = Some ''a'', p_requestMappingTemplate = Some ''REQ'',
           p_responseMappingTemplate = Some ''REQ'', p_functionVersion = ''2018-05-29'',
           p_dataSourceName = Some ''A'', p_description = None, p_functionId = None\<rparr>,
        UpdateFunction
          \<lparr>p_apiId = ''api-1'', p_name = Some ''c'', p_requestMappingTemplate = Some ''REQ'',
           p_responseMappingTemplate = Some ''REQ'', p_functionVersion = ''2018-05-29'',
           p_dataSourceName = Some ''A'', p_description = None, p_functionId = Some ''fn-c''\<rparr>]"
    unfolding calls by (simp add: functionParamsOf_def emptyConfig_def emptyFunc_def)
  have "\<exists>result. snd (createOrUpdateFunctions ?client ?fs ?cfg) = Inr result"
    by (simp add: createOrUpdateFunctions_def functionsWithTemplates_def
          functionWithTemplates_def readIfFile_def path_join_def functionToDeploy_def
          equalsByKeys_def getProp_def promise_all_def deployFunction_def functionParamsOf_def
          pick_def List.map_filter_simps idleClient_def emptyConfig_def emptyFunc_def Let_def)
  then obtain result where ok: "snd (createOrUpdateFunctions ?client ?fs ?cfg) = Inr result"
    by blast
  with classified have len: "length result = length ?resolved"
    and modes: "\<forall>i<length ?resolved.
                       mode (result ! i)
                         = (case find (\<lambda>d. name d = name (?resolved ! i)
                                           \<and> dataSourceName d = dataSource (?resolved ! i)) [?rb, ?rc] of
                              None \<Rightarrow> Some ''create''
                            | Some d \<Rightarrow>
                                if dataSourceName d = dataSource (?resolved ! i)
                                   \<and> name d = name (?resolved ! i)
                                   \<and> responseMappingTemplate d = responseMappingTemplate (?resolved ! i)
                                   \<and> requestMappingTemplate d = requestMappingTemplate (?resolved ! i)
                                then Some ''ignore'' else Some ''update'')"
    by blast+
  have m0: "mode (result ! 0) = Some ''create''"
    using modes [rule_format, of 0] by (simp add: emptyFunc_def)
  have m1: "mode (result ! 1) = Some ''ignore''"
    using modes [rule_format, of 1] by (simp add: emptyFunc_def)
  have m2: "mode (result ! 2) = Some ''update''"
    using modes [rule_format, of 2] by (simp add: emptyFunc_def)
  from len have "length result = 3" by simp
  with trace ok m0 m1 m2 show ?thesis by blast
qed

text \<open>
  Claim C7. Let the schema text be what the schema reference resolves to. If its checksum
  equals the schema checksum of the prior state, \<open>createSchema\<close> makes no call (so no
  \<open>startSchemaCreation\<close>) and returns the prior checksum. If the checksums differ and
  the submission is accepted, \<open>createSchema\<close> calls \<open>startSchemaCreation\<close> and polls
  the status with a sleep of 1000 milliseconds after every status that is none of
  \<open>FAILED\<close>, \<open>SUCCESS\<close> and \<open>NOT_APPLICABLE\<close>; it returns, with the new checksum,
  at the first status that is one of the three, and if no status ever is, it never
  returns: there is no bound on the time or on the number of polls.
\<close>

theorem createSchema_convergence:
  assumes "schema cfg = Some ref \<or> (schema cfg = None \<and> isApiCreator cfg \<and> ref = ''schema.graphql'')"
      and "schemaText = readIfFile fs (path_join (src cfg) ref)"
  shows "(Some (checksum schemaText) = schemaChecksum st
            \<longrightarrow> createSchema client fs checksum cfg st = Some ([], Inr (schemaChecksum st)))
       \<and> (Some (checksum schemaText) \<noteq> schemaChecksum st \<and> startSchemaCreation client schemaText = None
            \<longrightarrow> (\<forall>m s. (\<forall>i<m. \<exists>s'. getSchemaCreationStatus client i = Inr s'
                                  \<and> s' \<notin> set [''FAILED'', ''SUCCESS'', ''NOT_APPLICABLE''])
                        \<and> getSchemaCreationStatus client m = Inr s
                        \<and> s \<in> set [''FAILED'', ''SUCCESS'', ''NOT_APPLICABLE'']
                     \<longrightarrow> createSchema client fs checksum cfg st
                         = Some (StartSchemaCreation (apiId cfg) schemaText
                                   # concat (replicate m [GetSchemaCreationStatus (apiId cfg), Sleep 1000])
                                   @ [GetSchemaCreationStatus (apiId cfg)],
                                 Inr (Some (checksum schemaText))))
               \<and> ((\<forall>i. \<exists>s'. getSchemaCreationStatus client i = Inr s'
                              \<and> s' \<notin> set [''FAILED'', ''SUCCESS'', ''NOT_APPLICABLE''])
                     \<longrightarrow> createSchema client fs checksum cfg st = None))"
proof -
  have unfold: "createSchema client fs checksum cfg st = createSchemaFrom client fs checksum cfg st ref"
    using assms(1) by (auto simp: createSchema_def)
  have same: "createSchema client fs checksum cfg st = Some ([], Inr (schemaChecksum st))"
    if "Some (checksum schemaText) = schemaChecksum st"
    using that assms(2) by (simp add: unfold createSchemaFrom_def Let_def)
  have exits: "createSchema client fs checksum cfg st
                 = Some (StartSchemaCreation (apiId cfg) schemaText
                           # concat (replicate m [GetSchemaCreationStatus (apiId cfg), Sleep 1000])
                           @ [GetSchemaCreationStatus (apiId cfg)],
                         Inr (Some (checksum schemaText)))"
    if differ: "Some (checksum schemaText) \<noteq> schemaChecksum st"
      and started: "startSchemaCreation client schemaText = None"
      and waiting: "\<forall>i<m. \<exists>s'. getSchemaCreationStatus client i = Inr s'
                          \<and> s' \<notin> set [''FAILED'', ''SUCCESS'', ''NOT_APPLICABLE'']"
      and final: "getSchemaCreationStatus client m = Inr s"
                 "s \<in> set [''FAILED'', ''SUCCESS'', ''NOT_APPLICABLE'']"
    for m s
  proof -
    have "pollSchemaCreation client cfg 0 [StartSchemaCreation (apiId cfg) schemaText]
            = Some ([StartSchemaCreation (apiId cfg) schemaText]
                      @ concat (replicate m [GetSchemaCreationStatus (apiId cfg), Sleep 1000])
                      @ [GetSchemaCreationStatus (apiId cfg)], Inr ())"
      using waiting final by (intro pollSchemaCreation_exits [where s = s]) simp_all
    with differ started assms(2) show ?thesis
      by (simp add: unfold createSchemaFrom_def Let_def)
  qed
  have never: "createSchema client fs checksum cfg st = None"
    if differ: "Some (checksum schemaText) \<noteq> schemaChecksum st"
      and started: "startSchemaCreation client schemaText = None"
      and waiting: "\<forall>i. \<exists>s'. getSchemaCreationStatus client i = Inr s'
                          \<and> s' \<notin> set [''FAILED'', ''SUCCESS'', ''NOT_APPLICABLE'']"
  proof -
    have "pollSchemaCreation client cfg 0 [StartSchemaCreation (apiId cfg) schemaText] = None"
      using waiting by (rule pollSchemaCreation_never_returns)
    with differ started assms(2) show ?thesis
      by (simp add: unfold createSchemaFrom_def Let_def)
  qed
  show ?thesis using same exits never by blast
qed

theorem createSchema_convergence_witness:
  "createSchema (idleClient\<lparr>getSchemaCreationStatus :=
                    (\<lambda>n. if n = 0 then Inr ''PROCESSING'' else Inr ''SUCCESS'')\<rparr>)
     [''src/schema.graphql'' \<mapsto> ''type Query''] (\<lambda>text. ''#'' @ text)
     (emptyConfig\<lparr>schema := Some ''schema.graphql''\<rparr>) emptyState
   = Some ([StartSchemaCreation ''api-1'' ''type Query'', GetSchemaCreationStatus ''api-1'',
            Sleep 1000, GetSchemaCreationStatus ''api-1''],
           Inr (Some ''#type Query''))
   \<and> createSchema (idleClient\<lparr>getSchemaCreationStatus := (\<lambda>n. Inr ''PROCESSING'')\<rparr>)
     [''src/schema.graphql'' \<mapsto> ''type Query''] (\<lambda>text. ''#'' @ text)
     (emptyConfig\<lparr>schema := Some ''schema.graphql''\<rparr>) emptyState
   = None
   \<and> createSchema idleClient
     [''src/schema.graphql'' \<mapsto> ''type Query''] (\<lambda>text. ''#'' @ text)
     (emptyConfig\<lparr>schema := Some ''schema.graphql''\<rparr>)
     (emptyState\<lparr>schemaChecksum := Some ''#type Query''\<rparr>)
   = Some ([], Inr (Some ''#type Query''))"
proof -
  let ?fs = "[''src/schema.graphql'' \<mapsto> ''type Query'']"
  let ?cfg = "emptyConfig\<lparr>schema := Some ''schema.graphql''\<rparr>"
  let ?slow = "idleClient\<lparr>getSchemaCreationStatus :=
                    (\<lambda>n. if n = 0 then Inr ''PROCESSING'' else Inr ''SUCCESS'')\<rparr>"
  let ?stuck = "idleClient\<lparr>getSchemaCreationStatus := (\<lambda>n. Inr ''PROCESSING'')\<rparr>"
  have managed: "schema ?cfg = Some ''schema.graphql''
      \<or> (schema ?cfg = None \<and> isApiCreator ?cfg \<and> ''schema.graphql'' = ''schema.graphql'')"
    by simp
  have contents: "''type Query'' = readIfFile ?fs (path_join (src ?cfg) ''schema.graphql'')"
    by (simp add: readIfFile_def path_join_def emptyConfig_def)
  have api: "apiId ?cfg = ''api-1''" by (simp add: emptyConfig_def)
  have differ: "Some ((\<lambda>text. ''#'' @ text) ''type Query'') \<noteq> schemaChecksum emptyState"
    by (simp add: emptyState_def)
  have started: "startSchemaCreation ?slow ''type Query'' = None"
    "startSchemaCreation ?stuck ''type Query'' = None"
    by (simp_all add: idleClient_def)
  have slow: "(\<forall>i<1. \<exists>s'. getSchemaCreationStatus ?slow i = Inr s'
                   \<and> s' \<notin> set [''FAILED'', ''SUCCESS'', ''NOT_APPLICABLE''])
              \<and> getSchemaCreationStatus ?slow 1 = Inr ''SUCCESS''
              \<and> ''SUCCESS'' \<in> set [''FAILED'', ''SUCCESS'', ''NOT_APPLICABLE'']"
    by simp
  have stuck: "\<forall>i. \<exists>s'. getSchemaCreationStatus ?stuck i = Inr s'
                   \<and> s' \<notin> set [''FAILED'', ''SUCCESS'', ''NOT_APPLICABLE'']"
    by simp
  have same: "Some ((\<lambda>text. ''#'' @ text) ''type Query'')
                = schemaChecksum (emptyState\<lparr>schemaChecksum := Some ''#type Query''\<rparr>)"
    by simp
  have 1: "createSchema ?slow ?fs (\<lambda>text. ''#'' @ text) ?cfg emptyState
      = Some (StartSchemaCreation (apiId ?cfg) ''type Query''
                # concat (replicate 1 [GetSchemaCreationStatus (apiId ?cfg), Sleep 1000])
                @ [GetSchemaCreationStatus (apiId ?cfg)],
              Inr (Some ((\<lambda>text. ''#'' @ text) ''type Query'')))"
    using createSchema_convergence [OF managed contents, of "\<lambda>text. ''#'' @ text" emptyState ?slow]
          differ started(1) slow
    by blast
  have 2: "createSchema ?stuck ?fs (\<lambda>text. ''#'' @ text) ?cfg emptyState = None"
    using createSchema_convergence [OF managed contents, of "\<lambda>text. ''#'' @ text" emptyState ?stuck]
          differ started(2) stuck
    by blast
  have 3: "createSchema idleClient ?fs (\<lambda>text. ''#'' @ text) ?cfg
             (emptyState\<lparr>schemaChecksum := Some ''#type Query''\<rparr>)
           = Some ([], Inr (schemaChecksum (emptyState\<lparr>schemaChecksum := Some ''#type Query''\<rparr>)))"
    using createSchema_convergence [OF managed contents, of "\<lambda>text. ''#'' @ text"
            "emptyState\<lparr>schemaChecksum := Some ''#type Query''\<rparr>" idleClient]
          same
    by blast
  from 1 2 3 api show ?thesis by simp
qed

text \<open>
  Claim C8. \<open>removeObsoleteFunctions\<close> issues one \<open>deleteFunction\<close> for each
  projection onto \<open>name\<close> and \<open>dataSource\<close> that a function of the prior state has
  and no desired function has: the deleted functions are functions of the state, their
  projections are distinct and are exactly the projections of the state that are not
  among the desired ones. With no desired function and one function in the prior state
  there is exactly one delete, for that function. If every delete succeeds or is rejected
  with \<open>NotFoundException\<close>, the operation completes without error; if a delete is
  rejected with another code, the operation fails with such an error.
\<close>

theorem removeObsoleteFunctions_deletes:
  "(\<exists>deleted.
      fst (removeObsoleteFunctions client cfg st)
        = map (\<lambda>f. DeleteFunction (apiId cfg) (functionId f)) deleted
      \<and> set deleted \<subseteq> set (state_functions st)
      \<and> distinct (map (\<lambda>f. (name f, dataSource f)) deleted)
      \<and> set (map (\<lambda>f. (name f, dataSource f)) deleted)
          = set (map (\<lambda>f. (name f, dataSource f)) (state_functions st))
            - set (map (\<lambda>f. (name f, dataSource f)) (defaultToAnArray (config_functions cfg)))
      \<and> ((\<forall>f\<in>set deleted. deleteFunction client (functionId f) = None
                            \<or> deleteFunction client (functionId f) = Some ''NotFoundException'')
           \<longrightarrow> snd (removeObsoleteFunctions client cfg st) = Inr (map (\<lambda>f. ()) deleted))
      \<and> ((\<exists>f\<in>set deleted. \<exists>code. deleteFunction client (functionId f) = Some code
                                  \<and> code \<noteq> ''NotFoundException'')
           \<longrightarrow> (\<exists>f\<in>set deleted. \<exists>code. deleteFunction client (functionId f) = Some code
                                  \<and> code \<noteq> ''NotFoundException''
                                  \<and> snd (removeObsoleteFunctions client cfg st) = Inl (AwsError code))))
   \<and> (defaultToAnArray (config_functions cfg) = [] \<and> state_functions st = [f1]
        \<longrightarrow> fst (removeObsoleteFunctions client cfg st)
              = [DeleteFunction (apiId cfg) (functionId f1)])"
proof -
  let ?out = "\<lambda>f. case deleteFunction client (functionId f) of
                    None \<Rightarrow> Inr ()
                  | Some code \<Rightarrow> if code \<noteq> ''NotFoundException'' then Inl (AwsError code) else Inr ()"
  from removeObsoleteFunctions_deleted [of st cfg client] obtain deleted where
    sub: "set deleted \<subseteq> set (state_functions st)"
    and proj: "map (pick [''name'', ''dataSource'']) deleted = obsoleteFunctions cfg st"
    and calls: "fst (removeObsoleteFunctions client cfg st)
         = map (\<lambda>f. DeleteFunction (apiId cfg) (functionId f)) deleted"
    and result: "snd (removeObsoleteFunctions client cfg st) = sequence (map ?out deleted)"
    by blast
  from proj have keys: "distinct (map (\<lambda>f. (name f, dataSource f)) deleted)
       \<and> set (map (\<lambda>f. (name f, dataSource f)) deleted)
           = set (map (\<lambda>f. (name f, dataSource f)) (state_functions st))
             - set (map (\<lambda>f. (name f, dataSource f)) (defaultToAnArray (config_functions cfg)))"
    unfolding obsoleteFunctions_def by (rule obsolete_keys)
  have swallowed: "snd (removeObsoleteFunctions client cfg st) = Inr (map (\<lambda>f. ()) deleted)"
    if "\<forall>f\<in>set deleted. deleteFunction client (functionId f) = None
                            \<or> deleteFunction client (functionId f) = Some ''NotFoundException''"
  proof -
    from that have "\<forall>f\<in>set deleted. ?out f = Inr ()" by auto
    then show ?thesis unfolding result by (rule sequence_all_Inr)
  qed
  have propagated: "\<exists>f\<in>set deleted. \<exists>code. deleteFunction client (functionId f) = Some code
                                  \<and> code \<noteq> ''NotFoundException''
                                  \<and> snd (removeObsoleteFunctions client cfg st) = Inl (AwsError code)"
    if "\<exists>f\<in>set deleted. \<exists>code. deleteFunction client (functionId f) = Some code
                                  \<and> code \<noteq> ''NotFoundException''"
  proof -
    from that obtain f code where "f \<in> set deleted" "?out f = Inl (AwsError code)" by auto
    then have "Inl (AwsError code) \<in> set (map ?out deleted)" by force
    then obtain e where e: "sequence (map ?out deleted) = Inl e" using sequence_fails by blast
    then have "Inl e \<in> set (map ?out deleted)" by (rule sequence_Inl)
    then obtain g where g: "g \<in> set deleted" "?out g = Inl e" by auto
    then obtain code' where "deleteFunction client (functionId g) = Some code'"
        "code' \<noteq> ''NotFoundException''" "e = AwsError code'"
      by (auto split: option.splits if_splits)
    with g(1) e result show ?thesis by auto
  qed
  have scenario: "fst (removeObsoleteFunctions client cfg st)
              = [DeleteFunction (apiId cfg) (functionId f1)]"
    if "defaultToAnArray (config_functions cfg) = []" "state_functions st = [f1]"
    using that
    by (simp add: removeObsoleteFunctions_def obsoleteFunctions_def difference_def
          promise_all_def removeFunction_def map_of_pick)
  show ?thesis
    using sub keys calls swallowed propagated scenario by blast
qed

theorem removeObsoleteFunctions_deletes_witness:
  "removeObsoleteFunctions (idleClient\<lparr>deleteFunction := (\<lambda>i. Some ''NotFoundException'')\<rparr>)
     (emptyConfig\<lparr>config_functions := Array []\<rparr>)
     (emptyState\<lparr>state_functions :=
        [emptyFunc\<lparr>name := Some ''f1'', dataSource := Some ''A'', functionId := Some ''fn-1''\<rparr>]\<rparr>)
   = ([DeleteFunction ''api-1'' (Some ''fn-1'')], Inr [()])
   \<and> removeObsoleteFunctions (idleClient\<lparr>deleteFunction := (\<lambda>i. Some ''InternalFailureException'')\<rparr>)
     (emptyConfig\<lparr>config_functions := Array []\<rparr>)
     (emptyState\<lparr>state_functions :=
        [emptyFunc\<lparr>name := Some ''f1'', dataSource := Some ''A'', functionId := Some ''fn-1''\<rparr>]\<rparr>)
   = ([DeleteFunction ''api-1'' (Some ''fn-1'')], Inl (AwsError ''InternalFailureException''))"
proof -
  let ?f1 = "emptyFunc\<lparr>name := Some ''f1'', dataSource := Some ''A'', functionId := Some ''fn-1''\<rparr>"
  let ?cfg = "emptyConfig\<lparr>config_functions := Array []\<rparr>"
  let ?st = "emptyState\<lparr>state_functions := [?f1]\<rparr>"
  let ?gone = "idleClient\<lparr>deleteFunction := (\<lambda>i. Some ''NotFoundException'')\<rparr>"
  let ?broken = "idleClient\<lparr>deleteFunction := (\<lambda>i. Some ''InternalFailureException'')\<rparr>"
  have desired: "defaultToAnArray (config_functions ?cfg) = []" by simp
  have prior: "state_functions ?st = [?f1]" by simp
  have api: "apiId ?cfg = ''api-1''" by (simp add: emptyConfig_def)
  have fid: "functionId ?f1 = Some ''fn-1''" by simp
  have one: "deleted = [?f1]"
    if "map (\<lambda>f. DeleteFunction (apiId ?cfg) (functionId f)) deleted
          = [DeleteFunction (apiId ?cfg) (functionId ?f1)]"
       "set deleted \<subseteq> set (state_functions ?st)" for deleted
  proof -
    from that(1) have "length deleted = 1" by (metis length_map length_Cons list.size(3) One_nat_def)
    then obtain x where x: "deleted = [x]" by (cases deleted) auto
    with that(2) have "x = ?f1" by simp
    with x show ?thesis by simp
  qed
  have gone: "removeObsoleteFunctions ?gone ?cfg ?st
                = ([DeleteFunction ''api-1'' (Some ''fn-1'')], Inr [()])"
  proof -
    from removeObsoleteFunctions_deletes [of ?gone ?cfg ?st ?f1] desired prior
    obtain deleted where
      calls: "fst (removeObsoleteFunctions ?gone ?cfg ?st)
                = map (\<lambda>f. DeleteFunction (apiId ?cfg) (functionId f)) deleted"
      and sub: "set deleted \<subseteq> set (state_functions ?st)"
      and swallowed: "(\<forall>f\<in>set deleted. deleteFunction ?gone (functionId f) = None
                            \<or> deleteFunction ?gone (functionId f) = Some ''NotFoundException'')
           \<longrightarrow> snd (removeObsoleteFunctions ?gone ?cfg ?st) = Inr (map (\<lambda>f. ()) deleted)"
      and scenario: "fst (removeObsoleteFunctions ?gone ?cfg ?st)
              = [DeleteFunction (apiId ?cfg) (functionId ?f1)]"
      by blast
    from calls scenario sub have d: "deleted = [?f1]" by (intro one) simp_all
    from swallowed have "snd (removeObsoleteFunctions ?gone ?cfg ?st) = Inr (map (\<lambda>f. ()) deleted)"
      by simp
    with d scenario api fid show ?thesis by (simp add: prod_eq_iff)
  qed
  have broken: "removeObsoleteFunctions ?broken ?cfg ?st
                = ([DeleteFunction ''api-1'' (Some ''fn-1'')], Inl (AwsError ''InternalFailureException''))"
  proof -
    from removeObsoleteFunctions_deletes [of ?broken ?cfg ?st ?f1] desired prior
    obtain deleted where
      calls: "fst (removeObsoleteFunctions ?broken ?cfg ?st)
                = map (\<lambda>f. DeleteFunction (apiId ?cfg) (functionId f)) deleted"
      and sub: "set deleted \<subseteq> set (state_functions ?st)"
      and propagated: "(\<exists>f\<in>set deleted. \<exists>code. deleteFunction ?broken (functionId f) = Some code
                                  \<and> code \<noteq> ''NotFoundException'')
           \<longrightarrow> (\<exists>f\<in>set deleted. \<exists>code. deleteFunction ?broken (functionId f) = Some code
                                  \<and> code \<noteq> ''NotFoundException''
                                  \<and> snd (removeObsoleteFunctions ?broken ?cfg ?st) = Inl (AwsError code))"
      and scenario: "fst (removeObsoleteFunctions ?broken ?cfg ?st)
              = [DeleteFunction (apiId ?cfg) (functionId ?f1)]"
      by blast
    from calls scenario sub have d: "deleted = [?f1]" by (intro one) simp_all
    from propagated d have "snd (removeObsoleteFunctions ?broken ?cfg ?st)
        = Inl (AwsError ''InternalFailureException'')"
      by simp
    with scenario api fid show ?thesis by (simp add: prod_eq_iff)
  qed
  from gone broken show ?thesis by simp
qed

text \<open>
  Claim C9. \<open>createOrUpdateFunctions\<close> fails with a \<open>ConfigurationError\<close> if and only
  if two desired functions, at different places of the list, have the same \<open>name\<close> and
  the same \<open>dataSource\<close>; and when it fails so, it has made no call to the provider.
\<close>

theorem createOrUpdateFunctions_duplicate_check:
  "(snd (createOrUpdateFunctions client fs cfg) = Inl ConfigurationError
      \<longleftrightarrow> (\<exists>i j. i < j \<and> j < length (defaultToAnArray (config_functions cfg)) \<and>
             name (defaultToAnArray (config_functions cfg) ! i)
               = name (defaultToAnArray (config_functions cfg) ! j) \<and>
             dataSource (defaultToAnArray (config_functions cfg) ! i)
               = dataSource (defaultToAnArray (config_functions cfg) ! j)))
   \<and> (snd (createOrUpdateFunctions client fs cfg) = Inl ConfigurationError
      \<longrightarrow> fst (createOrUpdateFunctions client fs cfg) = [])"
proof -
  let ?xs = "defaultToAnArray (config_functions cfg)"
  let ?ps = "map (pick [''name'', ''dataSource'']) ?xs"
  have dup: "(\<not> distinct ?ps) \<longleftrightarrow>
      (\<exists>i j. i < j \<and> j < length ?xs \<and> name (?xs ! i) = name (?xs ! j) \<and>
             dataSource (?xs ! i) = dataSource (?xs ! j))" (is "?L \<longleftrightarrow> ?R")
  proof
    assume ?L
    then obtain i j where ij: "i < length ?xs" "j < length ?xs" "i \<noteq> j" "?ps ! i = ?ps ! j"
      by (auto simp: distinct_conv_nth)
    then have eq: "name (?xs ! i) = name (?xs ! j) \<and> dataSource (?xs ! i) = dataSource (?xs ! j)"
      by (simp add: pick_name_dataSource)
    show ?R
    proof (cases "i < j")
      case True
      with ij eq show ?thesis by blast
    next
      case False
      with ij have "j < i" by simp
      with ij eq show ?thesis by metis
    qed
  next
    assume ?R
    then obtain i j where ij: "i < j" "j < length ?xs"
      and eq: "name (?xs ! i) = name (?xs ! j)" "dataSource (?xs ! i) = dataSource (?xs ! j)"
      by blast
    then have "?ps ! i = ?ps ! j" by (simp add: pick_name_dataSource)
    moreover from ij have "i < length ?ps" "j < length ?ps" "i \<noteq> j" by simp_all
    ultimately show ?L unfolding distinct_conv_nth by blast
  qed
  have fails: "snd (createOrUpdateFunctions client fs cfg) = Inl ConfigurationError \<longleftrightarrow> \<not> distinct ?ps"
    using createOrUpdateFunctions_duplicates [of cfg client fs]
          createOrUpdateFunctions_no_duplicates [of cfg client fs]
    by auto
  show ?thesis
    using fails dup createOrUpdateFunctions_duplicates [of cfg client fs] by auto
qed

theorem createOrUpdateFunctions_duplicate_check_witness:
  "createOrUpdateFunctions idleClient Map.empty
     (emptyConfig\<lparr>config_functions :=
        Array [emptyFunc\<lparr>name := Some ''f1'', dataSource := Some ''A'', request := Some ''a.vtl''\<rparr>,
               emptyFunc\<lparr>name := Some ''f1'', dataSource := Some ''A'', request := Some ''b.vtl''\<rparr>]\<rparr>)
   = ([], Inl ConfigurationError)"
proof -
  let ?cfg = "emptyConfig\<lparr>config_functions :=
        Array [emptyFunc\<lparr>name := Some ''f1'', dataSource := Some ''A'', request := Some ''a.vtl''\<rparr>,
               emptyFunc\<lparr>name := Some ''f1'', dataSource := Some ''A'', request := Some ''b.vtl''\<rparr>]\<rparr>"
  let ?xs = "defaultToAnArray (config_functions ?cfg)"
  have "(0::nat) < 1 \<and> 1 < length ?xs \<and> name (?xs ! 0) = name (?xs ! 1)
          \<and> dataSource (?xs ! 0) = dataSource (?xs ! 1)"
    by (simp add: emptyConfig_def emptyFunc_def)
  then have "\<exists>i j. i < j \<and> j < length ?xs \<and> name (?xs ! i) = name (?xs ! j)
          \<and> dataSource (?xs ! i) = dataSource (?xs ! j)"
    by blast
  with createOrUpdateFunctions_duplicate_check [of idleClient Map.empty ?cfg]
  have "snd (createOrUpdateFunctions idleClient Map.empty ?cfg) = Inl ConfigurationError"
    and "fst (createOrUpdateFunctions idleClient Map.empty ?cfg) = []"
    by blast+
  then show ?thesis by (simp add: prod_eq_iff)
qed

text \<open>
  Claim C10, as stated: if a desired API key has no name, \<open>createOrUpdateApiKeys\<close>
  fails with a \<open>ConfigurationError\<close> before any call to the provider. The source lists
  the deployed keys first and checks the names afterwards: for one unnamed key the run
  fails with a \<open>ConfigurationError\<close> after the call \<open>listApiKeys\<close>.
\<close>

theorem createOrUpdateApiKeys_unnamed_counterexample:
  "key_name (emptyKey\<lparr>key_description := Some ''d''\<rparr>) = None
   \<and> createOrUpdateApiKeys idleClient (\<lambda>s. None)
       (emptyConfig\<lparr>config_apiKeys := Array [KeyObject (emptyKey\<lparr>key_description := Some ''d''\<rparr>)]\<rparr>)
       emptyState
     = ([ListApiKeys ''api-1''], Inl ConfigurationError)
   \<and> fst (createOrUpdateApiKeys idleClient (\<lambda>s. None)
       (emptyConfig\<lparr>config_apiKeys := Array [KeyObject (emptyKey\<lparr>key_description := Some ''d''\<rparr>)]\<rparr>)
       emptyState) \<noteq> []"
  by (simp add: createOrUpdateApiKeys_def apiKeysToDeploy_def apiKeyToDeploy_def
        checkForRequired_def hasKeyProp_def formatInputApiKeys_def idleClient_def
        emptyConfig_def emptyKey_def)

text \<open>
  Claim C10, amended: if a desired API key has no name, the only call
  \<open>createOrUpdateApiKeys\<close> makes is the listing of the deployed keys (no key is created
  or updated), and when the listing succeeds it fails with a \<open>ConfigurationError\<close>.
\<close>

theorem createOrUpdateApiKeys_unnamed:
  assumes "k \<in> set (formatInputApiKeys (config_apiKeys cfg))" "key_name k = None"
  shows "fst (createOrUpdateApiKeys client parse cfg st) = [ListApiKeys (apiId cfg)]
       \<and> (\<forall>deployed. listApiKeys client = Inr deployed
            \<longrightarrow> snd (createOrUpdateApiKeys client parse cfg st) = Inl ConfigurationError)"
  using apiKeysToDeploy_unnamed [OF assms]
  by (cases "listApiKeys client") (simp_all add: createOrUpdateApiKeys_def)

theorem createOrUpdateApiKeys_unnamed_witness:
  "createOrUpdateApiKeys idleClient (\<lambda>s. None)
       (emptyConfig\<lparr>config_apiKeys := Array [KeyString ''a'', KeyObject emptyKey]\<rparr>)
       emptyState
     = ([ListApiKeys ''api-1''], Inl ConfigurationError)"
proof -
  let ?cfg = "emptyConfig\<lparr>config_apiKeys := Array [KeyString ''a'', KeyObject emptyKey]\<rparr>"
  have 1: "emptyKey \<in> set (formatInputApiKeys (config_apiKeys ?cfg))"
    by (simp add: formatInputApiKeys_def emptyConfig_def)
  have 2: "key_name emptyKey = None" by (simp add: emptyKey_def)
  have 3: "listApiKeys idleClient = Inr []" by (simp add: idleClient_def)
  have 4: "apiId ?cfg = ''api-1''" by (simp add: emptyConfig_def)
  from createOrUpdateApiKeys_unnamed [OF 1 2, of idleClient "\<lambda>s. None" emptyState] 3 4
  show ?thesis by (simp add: prod_eq_iff)
qed

end
